theory Spec2Isabelle
  imports Complex_Main "HOL-Library.Word" "HOL-Library.AList"
begin

unbundle bit_operations_syntax

section \<open>JavaScript values, strings and numbers\<close>

text \<open>
  The risk-scoring and blacklist engine lives in \<^verbatim>\<open>src/js/utils.js\<close> (the object
  \<^verbatim>\<open>blacklistSystem\<close>) and \<^verbatim>\<open>src/js/fragment-handler.js\<close> (\<^verbatim>\<open>detectAutomation\<close>).
  The functions read globals of the browser; the model passes them in as a record.
  A global or property whose type the code inspects (\<^verbatim>\<open>typeof\<close>, truthiness,
  \<^verbatim>\<open>=== true\<close>) is a \<open>jsval\<close>.
\<close>

datatype jsval =
    JUndefined
  | JNull
  | JBool bool
  | JNumber int
  | JString string
  | JObject
  | JFunction

fun typeof :: "jsval \<Rightarrow> string" where
  "typeof JUndefined = ''undefined''"
| "typeof JNull = ''object''"
| "typeof (JBool b) = ''boolean''"
| "typeof (JNumber n) = ''number''"
| "typeof (JString s) = ''string''"
| "typeof JObject = ''object''"
| "typeof JFunction = ''function''"

text \<open>ToBoolean: what \<^verbatim>\<open>!v\<close> and \<^verbatim>\<open>!!v\<close> test.\<close>

fun truthy :: "jsval \<Rightarrow> bool" where
  "truthy JUndefined = False"
| "truthy JNull = False"
| "truthy (JBool b) = b"
| "truthy (JNumber n) = (n \<noteq> 0)"
| "truthy (JString s) = (s \<noteq> [])"
| "truthy JObject = True"
| "truthy JFunction = True"

text \<open>\<^verbatim>\<open>s.startsWith(t)\<close> with the arguments in the order \<open>t\<close>, \<open>s\<close>.\<close>

fun is_prefix :: "string \<Rightarrow> string \<Rightarrow> bool" where
  "is_prefix [] ys = True"
| "is_prefix (x # xs) [] = False"
| "is_prefix (x # xs) (y # ys) = (x = y \<and> is_prefix xs ys)"

text \<open>\<^verbatim>\<open>s.includes(t)\<close>: \<open>t\<close> occurs in \<open>s\<close> as a contiguous substring.\<close>

fun str_includes :: "string \<Rightarrow> string \<Rightarrow> bool" where
  "str_includes [] t = is_prefix t []"
| "str_includes (c # s) t = (is_prefix t (c # s) \<or> str_includes s t)"

text \<open>\<^verbatim>\<open>s.toLowerCase()\<close> on the ASCII letters (user-agent strings are ASCII).\<close>

definition toLowerCase :: "string \<Rightarrow> string" where
  "toLowerCase s =
     map (\<lambda>c. let n = (of_char c :: nat) in
                if 65 \<le> n \<and> n \<le> 90 then char_of (n + 32) else c) s"

text \<open>\<^verbatim>\<open>s.split(sep)\<close> for a one-character separator: never the empty list.\<close>

fun split :: "char \<Rightarrow> string \<Rightarrow> string list" where
  "split sep [] = [[]]"
| "split sep (c # s) =
     (if c = sep then [] # split sep s
      else (case split sep s of
              [] \<Rightarrow> [[c]]
            | p # ps \<Rightarrow> (c # p) # ps))"

text \<open>
  \<^verbatim>\<open>parseInt(s, 10)\<close>: leading white space is skipped, one sign is read, then the
  longest run of decimal digits; \<open>None\<close> is \<^verbatim>\<open>NaN\<close> (no digit). The argument
  \<open>None\<close> is \<^verbatim>\<open>undefined\<close>, which parseInt reads as the text "undefined".
  The value is the exact integer, as the double is below \<open>2 ^ 53\<close>.
\<close>

definition isWhiteSpace :: "char \<Rightarrow> bool" where
  "isWhiteSpace c = ((of_char c :: nat) \<in> {9, 10, 11, 12, 13, 32})"

definition isDigit :: "char \<Rightarrow> bool" where
  "isDigit c = (48 \<le> (of_char c :: nat) \<and> (of_char c :: nat) \<le> 57)"

definition digitsValue :: "string \<Rightarrow> int" where
  "digitsValue ds = foldl (\<lambda>acc c. 10 * acc + (int (of_char c) - 48)) 0 ds"

definition parseDigits :: "string \<Rightarrow> int option" where
  "parseDigits s =
     (let ds = takeWhile isDigit s in
      if ds = [] then None else Some (digitsValue ds))"

definition parseInt :: "string option \<Rightarrow> int option" where
  "parseInt arg =
     (case arg of
        None \<Rightarrow> None
      | Some s \<Rightarrow>
          (case dropWhile isWhiteSpace s of
             [] \<Rightarrow> None
           | c # rest \<Rightarrow>
               if c = CHR ''-'' then map_option uminus (parseDigits rest)
               else if c = CHR ''+'' then parseDigits rest
               else parseDigits (c # rest)))"

text \<open>\<^verbatim>\<open>xs[i]\<close> on an array: \<^verbatim>\<open>undefined\<close> out of range.\<close>

definition at_index :: "'a list \<Rightarrow> nat \<Rightarrow> 'a option" where
  "at_index xs i = (if i < length xs then Some (xs ! i) else None)"

text \<open>
  ToInt32 of a number (\<open>None\<close> is \<^verbatim>\<open>NaN\<close> or \<^verbatim>\<open>undefined\<close>, both read as 0), as
  the bitwise operators apply it, and \<^verbatim>\<open>x << n\<close>, whose result is the signed
  32-bit value and whose shift count is taken modulo 32.
\<close>

definition toInt32 :: "int option \<Rightarrow> 32 word" where
  "toInt32 x = (case x of None \<Rightarrow> 0 | Some v \<Rightarrow> word_of_int v)"

definition shiftLeft :: "int option \<Rightarrow> int option \<Rightarrow> int" where
  "shiftLeft x n = sint (push_bit (unat (toInt32 n) mod 32) (toInt32 x))"

text \<open>
  The numbers of the suspicion ratio: a quotient of two counts is a rational,
  \<^verbatim>\<open>Infinity\<close> (\<open>k / 0\<close> with \<open>k > 0\<close>) or \<^verbatim>\<open>NaN\<close> (\<open>0 / 0\<close>); JavaScript does
  not raise on a zero divisor. A comparison with \<^verbatim>\<open>NaN\<close> is false.
\<close>

datatype jsnum = Num rat | Infinity | NaN

definition js_div :: "nat \<Rightarrow> nat \<Rightarrow> jsnum" where
  "js_div a b =
     (if b = 0 then (if a = 0 then NaN else Infinity)
      else Num (of_nat a / of_nat b))"

fun js_gt :: "jsnum \<Rightarrow> rat \<Rightarrow> bool" where
  "js_gt (Num r) c = (c < r)"
| "js_gt Infinity c = True"
| "js_gt NaN c = False"

section \<open>The browser environment\<close>

text \<open>
  What the detectors read from \<^verbatim>\<open>navigator\<close>, \<^verbatim>\<open>window\<close> and \<^verbatim>\<open>document\<close>.
  \<open>errorProbe\<close> is what \<^verbatim>\<open>new Error('test')\<close> followed by a read of \<^verbatim>\<open>.stack\<close>
  does: it throws, or it yields the value of the property. \<open>clientIdentifier\<close> is the
  string \<^verbatim>\<open>getClientIdentifier()\<close> returns in this environment: the base64 text of
  user agent, language, screen size, platform and canvas image, cut to 32 characters.
  (Its fallback, a random identifier when the encoding throws, is not modelled: the
  identifier is the same in every call.)
\<close>

datatype errorProbe = ErrorThrows | ErrorStack jsval

record Browser =
  userAgent :: string
  navigator_webdriver :: jsval
  navigator_plugins_length :: nat
  navigator_languages :: "string list option"
  navigator_maxTouchPoints :: nat
  ontouchstart_in_window :: bool
  window_chrome :: jsval
  window_InstallTrigger :: jsval
  window_callPhantom :: jsval
  window__phantom :: jsval
  global_phantom :: jsval
  documentElement_attributes :: "(string \<times> string) list"
  errorProbe :: errorProbe
  clientIdentifier :: string

definition getAttribute :: "Browser \<Rightarrow> string \<Rightarrow> string option" where
  "getAttribute env name = map_of (documentElement_attributes env) name"

definition getClientIdentifier :: "Browser \<Rightarrow> string" where
  "getClientIdentifier env = clientIdentifier env"

section \<open>Automation detector (fragment-handler.js)\<close>

record AutomationResults =
  webdriver :: bool
  headlessUserAgent :: bool
  phantomJS :: bool
  seleniumAttrs :: bool
  noPlugins :: bool
  automationScore :: rat

text \<open>
  \<^verbatim>\<open>detectAutomation()\<close>, statement by statement. Every read is of a property
  that exists in a \<open>Browser\<close>, so the \<^verbatim>\<open>catch\<close> of the source is not reached.
\<close>

definition detectAutomation :: "Browser \<Rightarrow> AutomationResults" where
  "detectAutomation env =
    (let results = \<lparr>webdriver = False, headlessUserAgent = False, phantomJS = False,
                     seleniumAttrs = False, noPlugins = False, automationScore = 0\<rparr>;
         results =
           (if navigator_webdriver env = JBool True
            then results\<lparr>webdriver := True, automationScore := automationScore results + 3\<rparr>
            else results);
         ua = toLowerCase (userAgent env);
         results =
           (if str_includes ua ''headless'' \<or> str_includes ua ''phantomjs''
            then results\<lparr>headlessUserAgent := True,
                         automationScore := automationScore results + 2\<rparr>
            else results);
         results =
           (if typeof (window_callPhantom env) = ''function'' \<or>
               typeof (window__phantom env) = ''object'' \<or>
               typeof (global_phantom env) = ''object''
            then results\<lparr>phantomJS := True, automationScore := automationScore results + 3\<rparr>
            else results);
         results =
           (if getAttribute env ''selenium'' \<noteq> None \<or>
               getAttribute env ''webdriver'' \<noteq> None \<or>
               getAttribute env ''driver'' \<noteq> None
            then results\<lparr>seleniumAttrs := True,
                         automationScore := automationScore results + 3\<rparr>
            else results);
         results =
           (if navigator_plugins_length env = 0 \<and>
               \<not> str_includes ua ''firefox'' \<and>
               \<not> str_includes ua ''brave'' \<and>
               \<not> str_includes ua ''safari'' \<and>
               \<not> str_includes ua ''edge''
            then results\<lparr>noPlugins := True,
                         automationScore := automationScore results + 1 / 2\<rparr>
            else results);
         results =
           (if 0 < automationScore results then
              (let results =
                     (if navigator_languages env = None \<or> navigator_languages env = Some []
                      then results\<lparr>automationScore := automationScore results + 1 / 2\<rparr>
                      else results);
                   results =
                     (if str_includes ua ''chrome'' \<and> \<not> truthy (window_chrome env)
                      then results\<lparr>automationScore := automationScore results + 1\<rparr>
                      else results);
                   hasTouch = (ontouchstart_in_window env \<or> 0 < navigator_maxTouchPoints env);
                   results =
                     (if str_includes ua ''mobile'' \<and> \<not> hasTouch
                      then results\<lparr>automationScore := automationScore results + 1 / 2\<rparr>
                      else results)
               in results)
            else results)
     in results)"

text \<open>
  The weights as the specification lists them: the five primary predicates, and the
  three secondary predicates that count only once a primary predicate has fired.
\<close>

definition weight :: "bool \<Rightarrow> rat \<Rightarrow> rat" where
  "weight p w = (if p then w else 0)"

definition explicitMarker :: "Browser \<Rightarrow> bool" where
  "explicitMarker env = (navigator_webdriver env = JBool True)"

definition headlessSubstring :: "Browser \<Rightarrow> bool" where
  "headlessSubstring env =
     (str_includes (toLowerCase (userAgent env)) ''headless'' \<or>
      str_includes (toLowerCase (userAgent env)) ''phantomjs'')"

definition frameworkGlobal :: "Browser \<Rightarrow> bool" where
  "frameworkGlobal env =
     (typeof (window_callPhantom env) = ''function'' \<or>
      typeof (window__phantom env) = ''object'' \<or>
      typeof (global_phantom env) = ''object'')"

definition injectedAttribute :: "Browser \<Rightarrow> bool" where
  "injectedAttribute env =
     (getAttribute env ''selenium'' \<noteq> None \<or>
      getAttribute env ''webdriver'' \<noteq> None \<or>
      getAttribute env ''driver'' \<noteq> None)"

definition exemptPlatform :: "Browser \<Rightarrow> bool" where
  "exemptPlatform env =
     (str_includes (toLowerCase (userAgent env)) ''firefox'' \<or>
      str_includes (toLowerCase (userAgent env)) ''brave'' \<or>
      str_includes (toLowerCase (userAgent env)) ''safari'' \<or>
      str_includes (toLowerCase (userAgent env)) ''edge'')"

definition zeroPlugins :: "Browser \<Rightarrow> bool" where
  "zeroPlugins env = (navigator_plugins_length env = 0 \<and> \<not> exemptPlatform env)"

definition primaryScore :: "Browser \<Rightarrow> rat" where
  "primaryScore env =
     weight (explicitMarker env) 3 + weight (headlessSubstring env) 2 +
     weight (frameworkGlobal env) 3 + weight (injectedAttribute env) 3 +
     weight (zeroPlugins env) (1 / 2)"

definition missingLanguages :: "Browser \<Rightarrow> bool" where
  "missingLanguages env =
     (navigator_languages env = None \<or> navigator_languages env = Some [])"

definition chromeWithoutGlobal :: "Browser \<Rightarrow> bool" where
  "chromeWithoutGlobal env =
     (str_includes (toLowerCase (userAgent env)) ''chrome'' \<and> \<not> truthy (window_chrome env))"

definition mobileWithoutTouch :: "Browser \<Rightarrow> bool" where
  "mobileWithoutTouch env =
     (str_includes (toLowerCase (userAgent env)) ''mobile'' \<and>
      \<not> (ontouchstart_in_window env \<or> 0 < navigator_maxTouchPoints env))"

definition secondaryScore :: "Browser \<Rightarrow> rat" where
  "secondaryScore env =
     weight (missingLanguages env) (1 / 2) + weight (chromeWithoutGlobal env) 1 +
     weight (mobileWithoutTouch env) (1 / 2)"

section \<open>Suspicious pattern evaluator (utils.js)\<close>

record SuspiciousPatterns =
  noFonts :: bool
  noCanvas :: bool
  noWebGL :: bool
  mismatchedUA :: bool
  spoofedLanguages :: bool
  noStorage :: bool
  inconsistentFeatures :: bool
  tooBluetooth :: bool
  tooNetwork :: bool
  tamperedDOM :: bool
  perfectConsistency :: bool
  allPluginsDisabled :: bool
  unusualTimezone :: bool

text \<open>
  The two counters of \<^verbatim>\<open>hasTooManySuspiciousPatterns\<close> after its two blocks, as the
  pair \<open>(suspiciousCount, totalChecks)\<close>. The first block raises \<open>suspiciousCount\<close>
  once per browser family whose marker is missing and \<open>totalChecks\<close> once; the second
  raises both counters in its \<^verbatim>\<open>catch\<close>.
\<close>

definition mismatchedUA_block :: "Browser \<Rightarrow> nat \<times> nat \<Rightarrow> nat \<times> nat" where
  "mismatchedUA_block env counts =
     (let suspiciousCount = fst counts; totalChecks = snd counts;
          ua = toLowerCase (userAgent env);
          suspiciousCount =
            (if str_includes ua ''chrome'' \<and> typeof (window_chrome env) = ''undefined''
             then suspiciousCount + 1 else suspiciousCount);
          suspiciousCount =
            (if str_includes ua ''firefox'' \<and> typeof (window_InstallTrigger env) = ''undefined''
             then suspiciousCount + 1 else suspiciousCount)
      in (suspiciousCount, totalChecks + 1))"

definition tamperedDOM_block :: "Browser \<Rightarrow> nat \<times> nat \<Rightarrow> nat \<times> nat" where
  "tamperedDOM_block env counts =
     (let suspiciousCount = fst counts; totalChecks = snd counts in
      case errorProbe env of
        ErrorThrows \<Rightarrow> (suspiciousCount + 1, totalChecks + 1)
      | ErrorStack stack \<Rightarrow>
          ((if \<not> truthy stack \<or> typeof stack \<noteq> ''string''
            then suspiciousCount + 1 else suspiciousCount),
           totalChecks + 1))"

definition suspicionCounts :: "SuspiciousPatterns \<Rightarrow> Browser \<Rightarrow> nat \<times> nat" where
  "suspicionCounts patterns env =
     (let counts = (0, 0);
          counts = (if mismatchedUA patterns then mismatchedUA_block env counts else counts);
          counts = (if tamperedDOM patterns then tamperedDOM_block env counts else counts)
      in counts)"

text \<open>
  The last line: \<^verbatim>\<open>totalChecks > 0 && (suspiciousCount / totalChecks) > 0.3\<close>. The
  counts are at most 3 and 2, so every quotient is a multiple of one half and compares
  with the double nearest to 0.3 as it does with 3/10. The argument \<open>fingerprint\<close> is
  the parameter of the source.
\<close>

definition hasTooManySuspiciousPatterns ::
    "SuspiciousPatterns \<Rightarrow> Browser \<Rightarrow> 'f \<Rightarrow> bool" where
  "hasTooManySuspiciousPatterns patterns env fingerprint =
     (let suspiciousCount = fst (suspicionCounts patterns env);
          totalChecks = snd (suspicionCounts patterns env)
      in 0 < totalChecks \<and> js_gt (js_div suspiciousCount totalChecks) (3 / 10))"

text \<open>The ratio of the specification: 0 when nothing was checked.\<close>

definition suspicionRatio :: "nat \<Rightarrow> nat \<Rightarrow> rat" where
  "suspicionRatio suspiciousCount checkedCount =
     (if checkedCount = 0 then 0 else of_nat suspiciousCount / of_nat checkedCount)"

section \<open>Static IP denylist (utils.js)\<close>

text \<open>
  \<^verbatim>\<open>ipToInt\<close>: the parts are read by \<^verbatim>\<open>parseInt\<close>; a missing part is
  \<^verbatim>\<open>undefined\<close>. The three shifts turn \<^verbatim>\<open>NaN\<close> and \<^verbatim>\<open>undefined\<close> into 0; the
  last part is added as it is, so the sum is \<^verbatim>\<open>NaN\<close> (\<open>None\<close>) when it is.
\<close>

definition part :: "int option list \<Rightarrow> nat \<Rightarrow> int option" where
  "part parts i = (case at_index parts i of None \<Rightarrow> None | Some v \<Rightarrow> v)"

definition ipToInt :: "string \<Rightarrow> int option" where
  "ipToInt ip =
     (let parts = map (\<lambda>p. parseInt (Some p)) (split CHR ''.'' ip) in
      case part parts 3 of
        None \<Rightarrow> None
      | Some d \<Rightarrow>
          Some (shiftLeft (part parts 0) (Some 24) + shiftLeft (part parts 1) (Some 16) +
                shiftLeft (part parts 2) (Some 8) + d))"

text \<open>
  \<^verbatim>\<open>isIPInRange\<close>: \<open>mask\<close> is \<^verbatim>\<open>(0xFFFFFFFF << (32 - prefix)) >>> 0\<close>, the
  unsigned reading of the shifted word, and \<^verbatim>\<open>a & b\<close> is the signed reading of the
  bitwise conjunction of the two ToInt32 values. On strings nothing in the body
  throws, so the \<^verbatim>\<open>catch\<close> of the source (which returns \<^verbatim>\<open>false\<close>) is not reached;
  the same holds for \<^verbatim>\<open>isIPBlocked\<close> below.
\<close>

definition bitAnd :: "int option \<Rightarrow> int option \<Rightarrow> int" where
  "bitAnd a b = sint (toInt32 a AND toInt32 b)"

definition isIPInRange :: "string \<Rightarrow> string \<Rightarrow> bool" where
  "isIPInRange ip cidr =
     (case split CHR ''/'' cidr of
        [] \<Rightarrow> False
      | rangeIP # rest \<Rightarrow>
          (let prefixLength = at_index (rangeIP # rest) 1;
               prefix = parseInt prefixLength;
               ipInt = ipToInt ip;
               rangeInt = ipToInt rangeIP;
               mask = uint (toInt32 (Some (shiftLeft (Some 4294967295)
                              (map_option (\<lambda>p. 32 - p) prefix))))
           in bitAnd ipInt (Some mask) = bitAnd rangeInt (Some mask)))"

fun inAnyRange :: "string \<Rightarrow> string list \<Rightarrow> bool" where
  "inAnyRange ip [] = False"
| "inAnyRange ip (cidr # ranges) =
     (if isIPInRange ip cidr then True else inAnyRange ip ranges)"

section \<open>Penalty ledger (utils.js)\<close>

text \<open>
  Times are milliseconds, as \<^verbatim>\<open>Date.now()\<close> gives them. A function that reads the
  clock takes the readings as arguments: \<open>isClientBlacklisted\<close> and
  \<open>cleanupExpiredEntries\<close> take the instant \<open>now\<close> they compare with, and
  \<open>recordFailedAttempt\<close> takes one reading for each \<^verbatim>\<open>Date.now()\<close> of its text,
  since the source reads the clock anew each time. A reason is stored with its time
  stamp.
\<close>

type_synonym attemptReason = "string \<times> int"

record FailedAttempt =
  count :: int
  reasons :: "attemptReason list"
  firstAttempt :: int

record BlacklistEntry =
  added :: int
  expires :: int
  entryReasons :: "attemptReason list"

text \<open>
  \<^verbatim>\<open>localStorage\<close>. An item is missing (\<^verbatim>\<open>getItem\<close> gives \<^verbatim>\<open>null\<close>), text that
  \<^verbatim>\<open>JSON.parse\<close> rejects, or the JSON text of an object, kept as its list of keys
  and values in the order of the keys. \<^verbatim>\<open>getItem\<close> and \<^verbatim>\<open>setItem\<close> throw when the
  storage is blocked or full.
\<close>

datatype 'a item = NoItem | BadJSON | JSONObject 'a

datatype exn = StorageError | SyntaxError

record LocalStorage =
  getItem_throws :: bool
  setItem_throws :: bool
  captcha_blacklist :: "(string \<times> BlacklistEntry) list item"
  captcha_failed_attempts :: "(string \<times> FailedAttempt) list item"

definition getItem_blacklist ::
    "LocalStorage \<Rightarrow> exn + (string \<times> BlacklistEntry) list item" where
  "getItem_blacklist ls =
     (if getItem_throws ls then Inl StorageError else Inr (captcha_blacklist ls))"

definition setItem_blacklist ::
    "(string \<times> BlacklistEntry) list \<Rightarrow> LocalStorage \<Rightarrow> exn + LocalStorage" where
  "setItem_blacklist blacklist ls =
     (if setItem_throws ls then Inl StorageError
      else Inr (ls\<lparr>captcha_blacklist := JSONObject blacklist\<rparr>))"

definition setItem_failed_attempts ::
    "(string \<times> FailedAttempt) list \<Rightarrow> LocalStorage \<Rightarrow> exn + LocalStorage" where
  "setItem_failed_attempts attempts ls =
     (if setItem_throws ls then Inl StorageError
      else Inr (ls\<lparr>captcha_failed_attempts := JSONObject attempts\<rparr>))"

text \<open>\<^verbatim>\<open>JSON.parse(item || '{}')\<close>.\<close>

definition parseOrEmpty :: "'a list item \<Rightarrow> exn + 'a list" where
  "parseOrEmpty raw =
     (case raw of
        NoItem \<Rightarrow> Inr []
      | BadJSON \<Rightarrow> Inl SyntaxError
      | JSONObject obj \<Rightarrow> Inr obj)"

definition readBlacklist :: "LocalStorage \<Rightarrow> exn + (string \<times> BlacklistEntry) list" where
  "readBlacklist ls =
     (case getItem_blacklist ls of
        Inl e \<Rightarrow> Inl e
      | Inr raw \<Rightarrow> parseOrEmpty raw)"

record Thresholds =
  maxFailedAttempts :: int
  blacklistDuration :: int

text \<open>The object \<^verbatim>\<open>blacklistSystem\<close>, with the storage it works on.\<close>

record BlacklistSystem =
  knownBotSignatures :: "string list"
  securityTools :: "string list"
  suspiciousPatterns :: SuspiciousPatterns
  knownMaliciousIPs :: "string list"
  blockedIPRanges :: "string list"
  blacklistedIPs :: "string list"
  thresholds :: Thresholds
  visitorIP :: "string option"
  failedAttempts :: "(string \<times> FailedAttempt) list"
  localStorage :: LocalStorage

definition isIPBlocked :: "BlacklistSystem \<Rightarrow> string \<Rightarrow> bool" where
  "isIPBlocked this ip =
     (if ip = [] then False
      else if ip \<in> set (knownMaliciousIPs this) then True
      else inAnyRange ip (blockedIPRanges this))"

text \<open>
  \<^verbatim>\<open>isClientBlacklisted\<close>: the body of the \<^verbatim>\<open>try\<close>, then the function with its
  \<^verbatim>\<open>catch\<close>, which returns \<^verbatim>\<open>false\<close>.
\<close>

definition isClientBlacklisted_try :: "string \<Rightarrow> int \<Rightarrow> BlacklistSystem \<Rightarrow> exn + bool" where
  "isClientBlacklisted_try clientId now this =
     (case readBlacklist (localStorage this) of
        Inl e \<Rightarrow> Inl e
      | Inr blacklist \<Rightarrow>
          Inr (case map_of blacklist clientId of
                 None \<Rightarrow> False
               | Some entry \<Rightarrow> now < expires entry))"

definition isClientBlacklisted :: "string \<Rightarrow> int \<Rightarrow> BlacklistSystem \<Rightarrow> bool" where
  "isClientBlacklisted clientId now this =
     (case isClientBlacklisted_try clientId now this of
        Inl e \<Rightarrow> False
      | Inr b \<Rightarrow> b)"

text \<open>
  The readings of the clock in one call of \<^verbatim>\<open>recordFailedAttempt\<close>, in the order
  of the source: for \<^verbatim>\<open>firstAttempt\<close> (read when the record is created), for the
  \<^verbatim>\<open>timestamp\<close> of the reason, and in \<^verbatim>\<open>addToBlacklist\<close> (reached on promotion)
  for \<^verbatim>\<open>added\<close> and for \<^verbatim>\<open>expires\<close>.
\<close>

record DateNow =
  firstAttemptNow :: int
  timestampNow :: int
  addedNow :: int
  expiresNow :: int

text \<open>
  \<^verbatim>\<open>addToBlacklist\<close>, with the reading for \<^verbatim>\<open>added\<close> and the one for
  \<^verbatim>\<open>expires\<close>: an exception leaves the object as it was, since the runtime list is
  extended only after \<^verbatim>\<open>setItem\<close> has returned.
\<close>

definition addToBlacklist_try ::
    "string \<Rightarrow> attemptReason list \<Rightarrow> int \<Rightarrow> int \<Rightarrow> BlacklistSystem \<Rightarrow>
     exn + BlacklistSystem" where
  "addToBlacklist_try clientId rs now1 now2 this =
     (case readBlacklist (localStorage this) of
        Inl e \<Rightarrow> Inl e
      | Inr blacklist \<Rightarrow>
          (let blacklist =
                 AList.update clientId
                   \<lparr>added = now1,
                    expires = now2 + blacklistDuration (thresholds this) * 1000,
                    entryReasons = rs\<rparr> blacklist
           in case setItem_blacklist blacklist (localStorage this) of
                Inl e \<Rightarrow> Inl e
              | Inr ls \<Rightarrow>
                  Inr (this\<lparr>localStorage := ls,
                            blacklistedIPs := blacklistedIPs this @ [clientId]\<rparr>)))"

definition addToBlacklist ::
    "string \<Rightarrow> attemptReason list \<Rightarrow> int \<Rightarrow> int \<Rightarrow> BlacklistSystem \<Rightarrow>
     BlacklistSystem" where
  "addToBlacklist clientId rs now1 now2 this =
     (case addToBlacklist_try clientId rs now1 now2 this of
        Inl e \<Rightarrow> this
      | Inr this' \<Rightarrow> this')"

definition saveFailedAttempts :: "BlacklistSystem \<Rightarrow> BlacklistSystem" where
  "saveFailedAttempts this =
     (case setItem_failed_attempts (failedAttempts this) (localStorage this) of
        Inl e \<Rightarrow> this
      | Inr ls \<Rightarrow> this\<lparr>localStorage := ls\<rparr>)"

text \<open>
  \<^verbatim>\<open>recordFailedAttempt(reason)\<close>. The client is the one \<^verbatim>\<open>getClientIdentifier\<close>
  names; the two functions it calls catch their own exceptions.
\<close>

definition recordFailedAttempt ::
    "string \<Rightarrow> DateNow \<Rightarrow> Browser \<Rightarrow> BlacklistSystem \<Rightarrow> BlacklistSystem" where
  "recordFailedAttempt reason clock env this =
     (let clientId = getClientIdentifier env;
          this =
            (if map_of (failedAttempts this) clientId = None
             then this\<lparr>failedAttempts :=
                         AList.update clientId
                           \<lparr>count = 0, reasons = [], firstAttempt = firstAttemptNow clock\<rparr>
                           (failedAttempts this)\<rparr>
             else this);
          this =
            this\<lparr>failedAttempts :=
                   AList.map_entry clientId
                     (\<lambda>r. r\<lparr>count := count r + 1,
                            reasons := reasons r @ [(reason, timestampNow clock)]\<rparr>)
                     (failedAttempts this)\<rparr>;
          this =
            (case map_of (failedAttempts this) clientId of
               None \<Rightarrow> this
             | Some r \<Rightarrow>
                 if maxFailedAttempts (thresholds this) \<le> count r
                 then (addToBlacklist clientId (reasons r)
                         (addedNow clock) (expiresNow clock) this)
                        \<lparr>failedAttempts := AList.delete clientId (failedAttempts this)\<rparr>
                 else this)
      in saveFailedAttempts this)"

text \<open>Several calls in a row, each with its reason and its clock readings.\<close>

fun recordFailedAttempts ::
    "(string \<times> DateNow) list \<Rightarrow> Browser \<Rightarrow> BlacklistSystem \<Rightarrow> BlacklistSystem" where
  "recordFailedAttempts [] env this = this"
| "recordFailedAttempts ((reason, clock) # calls) env this =
     recordFailedAttempts calls env (recordFailedAttempt reason clock env this)"

text \<open>The reasons a run of calls stores, each with the time stamp read for it.\<close>

definition stamped :: "(string \<times> DateNow) list \<Rightarrow> attemptReason list" where
  "stamped calls = map (\<lambda>call. (fst call, timestampNow (snd call))) calls"

text \<open>
  \<^verbatim>\<open>cleanupExpiredEntries\<close>: the \<^verbatim>\<open>for ... in\<close> loop runs over the keys the
  object had when the loop began and skips a key that is gone by the time it is
  reached; the pair is the object and the flag \<open>modified\<close>.
\<close>

fun cleanupLoop ::
    "int \<Rightarrow> string list \<Rightarrow> (string \<times> BlacklistEntry) list \<times> bool \<Rightarrow>
     (string \<times> BlacklistEntry) list \<times> bool" where
  "cleanupLoop now [] (blacklist, modified) = (blacklist, modified)"
| "cleanupLoop now (clientId # keys) (blacklist, modified) =
     (case map_of blacklist clientId of
        None \<Rightarrow> cleanupLoop now keys (blacklist, modified)
      | Some entry \<Rightarrow>
          if expires entry < now
          then cleanupLoop now keys (AList.delete clientId blacklist, True)
          else cleanupLoop now keys (blacklist, modified))"

definition cleanupExpiredEntries_try :: "int \<Rightarrow> BlacklistSystem \<Rightarrow> exn + BlacklistSystem" where
  "cleanupExpiredEntries_try now this =
     (case readBlacklist (localStorage this) of
        Inl e \<Rightarrow> Inl e
      | Inr blacklist \<Rightarrow>
          (let result = cleanupLoop now (map fst blacklist) (blacklist, False);
               blacklist = fst result; modified = snd result
           in if modified then
                (case setItem_blacklist blacklist (localStorage this) of
                   Inl e \<Rightarrow> Inl e
                 | Inr ls \<Rightarrow>
                     Inr (this\<lparr>localStorage := ls, blacklistedIPs := map fst blacklist\<rparr>))
              else Inr this))"

definition cleanupExpiredEntries :: "int \<Rightarrow> BlacklistSystem \<Rightarrow> BlacklistSystem" where
  "cleanupExpiredEntries now this =
     (case cleanupExpiredEntries_try now this of
        Inl e \<Rightarrow> this
      | Inr this' \<Rightarrow> this')"

text \<open>The entries a reader of the storage finds: none when it cannot be read.\<close>

definition storedBlacklist :: "BlacklistSystem \<Rightarrow> string \<Rightarrow> BlacklistEntry option" where
  "storedBlacklist this =
     (case readBlacklist (localStorage this) of
        Inl e \<Rightarrow> Map.empty
      | Inr blacklist \<Rightarrow> map_of blacklist)"

definition failureRecord :: "BlacklistSystem \<Rightarrow> string \<Rightarrow> FailedAttempt option" where
  "failureRecord this = map_of (failedAttempts this)"

section \<open>Decision facade (utils.js)\<close>

record CheckResult =
  blocked :: bool
  reason :: "string option"
  confidence :: rat

fun botScoreLoop :: "string \<Rightarrow> string list \<Rightarrow> nat \<Rightarrow> nat" where
  "botScoreLoop ua [] botScore = botScore"
| "botScoreLoop ua (botSignature # signatures) botScore =
     botScoreLoop ua signatures
       (if str_includes ua botSignature then botScore + 1 else botScore)"

fun securityToolLoop :: "string \<Rightarrow> string list \<Rightarrow> bool" where
  "securityToolLoop ua [] = False"
| "securityToolLoop ua (tool # tools) =
     (if str_includes ua tool then True else securityToolLoop ua tools)"

definition deny :: "string \<Rightarrow> CheckResult" where
  "deny r = \<lparr>blocked = True, reason = Some r, confidence = 9 / 10\<rparr>"

text \<open>
  \<^verbatim>\<open>checkBlacklist()\<close>: the verdict and the object after the call. The first
  condition is \<^verbatim>\<open>this.visitorIP && this.isIPBlocked(this.visitorIP)\<close>. The functions
  it calls catch their own exceptions, so its own \<^verbatim>\<open>catch\<close> is not reached. It reads
  the clock only through them: \<open>clock\<close> holds the readings of a call of
  \<^verbatim>\<open>recordFailedAttempt\<close>, \<open>now\<close> the reading of \<^verbatim>\<open>isClientBlacklisted\<close>.
\<close>

definition checkBlacklist ::
    "DateNow \<Rightarrow> int \<Rightarrow> Browser \<Rightarrow> BlacklistSystem \<Rightarrow> CheckResult \<times> BlacklistSystem" where
  "checkBlacklist clock now env this =
     (let result = \<lparr>blocked = False, reason = None, confidence = 0\<rparr> in
      case (case visitorIP this of
              None \<Rightarrow> None
            | Some ip \<Rightarrow> if ip \<noteq> [] \<and> isIPBlocked this ip then Some ip else None) of
        Some ip \<Rightarrow>
          (deny ''blocked_ip'', recordFailedAttempt (''blocked_ip_'' @ ip) clock env this)
      | None \<Rightarrow>
          (let ua = toLowerCase (userAgent env);
               botScore = botScoreLoop ua (knownBotSignatures this) 0
           in if 2 \<le> botScore
              then (deny ''known_bot'',
                    recordFailedAttempt ''known_bot_useragent'' clock env this)
              else if securityToolLoop ua (securityTools this)
              then (deny ''security_tool'',
                    recordFailedAttempt ''security_tool_detected'' clock env this)
              else (let clientFingerprint = getClientIdentifier env in
                    if isClientBlacklisted clientFingerprint now this
                    then (deny ''blacklisted'', this)
                    else (result, this))))"

section \<open>The configuration of the source\<close>

definition defaultPatterns :: SuspiciousPatterns where
  "defaultPatterns =
     \<lparr>noFonts = True, noCanvas = True, noWebGL = True, mismatchedUA = True,
      spoofedLanguages = True, noStorage = True, inconsistentFeatures = True,
      tooBluetooth = True, tooNetwork = True, tamperedDOM = True,
      perfectConsistency = True, allPluginsDisabled = True, unusualTimezone = True\<rparr>"

definition emptyStorage :: LocalStorage where
  "emptyStorage =
     \<lparr>getItem_throws = False, setItem_throws = False,
      captcha_blacklist = NoItem, captcha_failed_attempts = NoItem\<rparr>"

definition blockedStorage :: LocalStorage where
  "blockedStorage = emptyStorage\<lparr>getItem_throws := True, setItem_throws := True\<rparr>"

definition blacklistSystem :: BlacklistSystem where
  "blacklistSystem =
     \<lparr>knownBotSignatures =
        [''googlebot'', ''bingbot'', ''yandexbot'', ''slurp'', ''duckduckbot'', ''baiduspider'',
         ''bytespider'', ''facebookexternalhit'', ''twitterbot'', ''rogerbot'', ''linkedinbot'',
         ''embedly'', ''quora link preview'', ''showyoubot'', ''outbrain'', ''pinterest'',
         ''slackbot'', ''vkshare'', ''w3c_validator'', ''postman'', ''curl'', ''wget'',
         ''python-requests'', ''ahrefs'', ''semrushbot'', ''mj12bot'', ''applebot'', ''dotbot'',
         ''zoominfobot'', ''scanner'', ''crawler'', ''spider'', ''headless'', ''scraper'',
         ''selenium'', ''webdriver'', ''puppeteer'', ''phantom'', ''nightmare'', ''jsdom''],
      securityTools =
        [''avast'', ''avg'', ''avira'', ''bitdefender'', ''kaspersky'', ''mcafee'', ''norton'',
         ''eset'', ''f-secure'', ''trend micro'', ''sophos'', ''symantec'', ''trustwave'',
         ''forcepoint'', ''checkpoint'', ''barracuda'', ''mimecast'', ''proofpoint'', ''fireeye'',
         ''crowdstrike'', ''cyren'', ''spamhaus'', ''spamcop'', ''netcraft'', ''virustotal'',
         ''sucuri'', ''urlscan'', ''zscaler'', ''office365'', ''microsoft-security'', ''cisco'',
         ''forcepoint'', ''cofense''],
      suspiciousPatterns = defaultPatterns,
      knownMaliciousIPs =
        [''154.28.229.126'', ''152.32.99.64'', ''107.150.22.208'', ''54.189.230.128'',
         ''154.28.229.253'', ''154.28.229.224'', ''154.28.229.172'', ''154.28.229.108'',
         ''154.28.229.11'', ''154.28.229.18'', ''154.28.229.20'', ''154.28.229.1'',
         ''154.28.229.140'', ''154.28.229.111'', ''154.28.229.49'', ''154.28.229.145'',
         ''154.28.229.242'', ''104.164.173.222'', ''104.164.173.206'', ''104.164.173.128''],
      blockedIPRanges = [''104.164.173.0/24'', ''154.28.229.0/24''],
      blacklistedIPs = [],
      thresholds = \<lparr>maxFailedAttempts = 3, blacklistDuration = 86400\<rparr>,
      visitorIP = None,
      failedAttempts = [],
      localStorage = emptyStorage\<rparr>"

text \<open>An ordinary desktop Chrome, for the examples.\<close>

definition desktopChrome :: Browser where
  "desktopChrome =
     \<lparr>userAgent = ''Mozilla/5.0 (Windows NT 10.0; Win64; x64) AppleWebKit/537.36 (KHTML, like Gecko) Chrome/120.0.0.0 Safari/537.36'',
      navigator_webdriver = JBool False,
      navigator_plugins_length = 5,
      navigator_languages = Some [''en-US'', ''en''],
      navigator_maxTouchPoints = 0,
      ontouchstart_in_window = False,
      window_chrome = JObject,
      window_InstallTrigger = JUndefined,
      window_callPhantom = JUndefined,
      window__phantom = JUndefined,
      global_phantom = JUndefined,
      documentElement_attributes = [],
      errorProbe = ErrorStack (JString ''Error: test at <anonymous>:1:1''),
      clientIdentifier = ''TW96aWxsYS81LjAgKFdpbmRvd3MgTlQg''\<rparr>"

text \<open>States and environments for the examples.\<close>

definition seleniumChrome :: Browser where
  "seleniumChrome =
     desktopChrome\<lparr>navigator_webdriver := JBool True, window_chrome := JUndefined,
                   navigator_languages := None\<rparr>"

definition threeEntries :: BlacklistSystem where
  "threeEntries =
     blacklistSystem\<lparr>localStorage := emptyStorage\<lparr>captcha_blacklist :=
        JSONObject [(''old'', \<lparr>added = 0, expires = 500, entryReasons = []\<rparr>),
                    (''edge'', \<lparr>added = 0, expires = 1000, entryReasons = []\<rparr>),
                    (''new'', \<lparr>added = 0, expires = 1500, entryReasons = []\<rparr>)]\<rparr>\<rparr>"

definition spoofedAgent :: Browser where
  "spoofedAgent =
     desktopChrome\<lparr>userAgent := ''Mozilla/5.0 (X11; Linux x86_64) Chrome/120.0 Firefox/121.0'',
                   window_chrome := JUndefined,
                   errorProbe := ErrorStack JUndefined\<rparr>"

definition botAgent :: Browser where
  "botAgent = desktopChrome\<lparr>userAgent := ''HeadlessChrome/120.0 Selenium''\<rparr>"

definition noChecks :: SuspiciousPatterns where
  "noChecks = defaultPatterns\<lparr>mismatchedUA := False, tamperedDOM := False\<rparr>"

text \<open>A clock that advances by one millisecond from one reading to the next.\<close>

definition readingsFrom :: "int \<Rightarrow> DateNow" where
  "readingsFrom t =
     \<lparr>firstAttemptNow = t, timestampNow = t + 1, addedNow = t + 2, expiresNow = t + 3\<rparr>"

definition threeCalls :: "(string \<times> DateNow) list" where
  "threeCalls = [(''honeypot_filled'', readingsFrom 1000),
                 (''no_interactions'', readingsFrom 2000),
                 (''suspicious_fingerprint'', readingsFrom 3000)]"

definition twoCalls :: "(string \<times> DateNow) list" where
  "twoCalls = [(''honeypot_filled'', readingsFrom 1000),
               (''no_interactions'', readingsFrom 2000)]"

text \<open>A storage that can be read and is full: \<^verbatim>\<open>setItem\<close> throws.\<close>

definition fullSystem :: BlacklistSystem where
  "fullSystem = blacklistSystem\<lparr>localStorage := emptyStorage\<lparr>setItem_throws := True\<rparr>\<rparr>"

text \<open>The client of \<open>botAgent\<close> one failure short of the threshold.\<close>

definition twoStrikes :: BlacklistSystem where
  "twoStrikes =
     blacklistSystem\<lparr>failedAttempts :=
        [(''TW96aWxsYS81LjAgKFdpbmRvd3MgTlQg'',
          \<lparr>count = 2,
           reasons = [(''honeypot_filled'', 1001), (''no_interactions'', 2001)],
           firstAttempt = 1000\<rparr>)]\<rparr>"

definition blockedSystem :: BlacklistSystem where
  "blockedSystem = blacklistSystem\<lparr>localStorage := blockedStorage\<rparr>"

definition listedChrome :: BlacklistSystem where
  "listedChrome =
     blacklistSystem\<lparr>localStorage := emptyStorage\<lparr>captcha_blacklist :=
        JSONObject [(''TW96aWxsYS81LjAgKFdpbmRvd3MgTlQg'',
                     \<lparr>added = 3002, expires = 86403003,
                      entryReasons = [(''honeypot_filled'', 1001), (''no_interactions'', 2001),
                                      (''suspicious_fingerprint'', 3001)]\<rparr>)]\<rparr>\<rparr>"

definition openRange :: BlacklistSystem where
  "openRange = blacklistSystem\<lparr>knownMaliciousIPs := [], blockedIPRanges := [''0.0.0.0/0'']\<rparr>"

section \<open>Notions of the specification\<close>

text \<open>
  The failure count and the reasons recorded for a client: 0 and none when the client
  has no record.
\<close>

definition failureCount :: "BlacklistSystem \<Rightarrow> string \<Rightarrow> int" where
  "failureCount this clientId =
     (case failureRecord this clientId of None \<Rightarrow> 0 | Some r \<Rightarrow> count r)"

definition failureReasons :: "BlacklistSystem \<Rightarrow> string \<Rightarrow> attemptReason list" where
  "failureReasons this clientId =
     (case failureRecord this clientId of None \<Rightarrow> [] | Some r \<Rightarrow> reasons r)"

text \<open>The record of a client after one more failure has been counted.\<close>

definition bumped ::
    "string \<Rightarrow> DateNow \<Rightarrow> BlacklistSystem \<Rightarrow> string \<Rightarrow> FailedAttempt" where
  "bumped rsn clock this clientId =
     (case failureRecord this clientId of
        None \<Rightarrow>
          \<lparr>count = 1, reasons = [(rsn, timestampNow clock)],
           firstAttempt = firstAttemptNow clock\<rparr>
      | Some r \<Rightarrow>
          r\<lparr>count := count r + 1, reasons := reasons r @ [(rsn, timestampNow clock)]\<rparr>)"

text \<open>The storage can be read, parsed and written.\<close>

definition storageWorks :: "BlacklistSystem \<Rightarrow> bool" where
  "storageWorks this =
     (\<not> getItem_throws (localStorage this) \<and> \<not> setItem_throws (localStorage this) \<and>
      captcha_blacklist (localStorage this) \<noteq> BadJSON)"

section \<open>Automation detector: the score\<close>

text \<open>
  C6. For every environment, \<open>detectAutomation\<close> returns as \<open>automationScore\<close> the
  weighted sum of its true primary predicates (explicit marker 3, headless substring 2,
  framework global 3, injected attribute 3, zero plugins on a non-exempt platform 1/2),
  plus the secondary contributions (missing languages 1/2, Chrome family without the
  chrome global 1, mobile without touch 1/2) only when the primary sum is positive.
  The function returns the score and compares it with no threshold.
\<close>

theorem detectAutomation_score:
  "automationScore (detectAutomation env) =
     primaryScore env + (if 0 < primaryScore env then secondaryScore env else 0)"
proof -
  define a where "a = explicitMarker env"
  define b where "b = headlessSubstring env"
  define c where "c = frameworkGlobal env"
  define d where "d = injectedAttribute env"
  define e where "e = zeroPlugins env"
  define f where "f = missingLanguages env"
  define g where "g = chromeWithoutGlobal env"
  define h where "h = mobileWithoutTouch env"
  have p: "primaryScore env =
      weight a 3 + weight b 2 + weight c 3 + weight d 3 + weight e (1 / 2)"
    by (simp add: primaryScore_def a_def b_def c_def d_def e_def)
  have s: "secondaryScore env = weight f (1 / 2) + weight g 1 + weight h (1 / 2)"
    by (simp add: secondaryScore_def f_def g_def h_def)
  have D: "detectAutomation env =
    (let results = \<lparr>webdriver = False, headlessUserAgent = False, phantomJS = False,
                     seleniumAttrs = False, noPlugins = False, automationScore = 0\<rparr>;
         results = (if a then results\<lparr>webdriver := True,
                       automationScore := automationScore results + 3\<rparr> else results);
         results = (if b then results\<lparr>headlessUserAgent := True,
                       automationScore := automationScore results + 2\<rparr> else results);
         results = (if c then results\<lparr>phantomJS := True,
                       automationScore := automationScore results + 3\<rparr> else results);
         results = (if d then results\<lparr>seleniumAttrs := True,
                       automationScore := automationScore results + 3\<rparr> else results);
         results = (if e then results\<lparr>noPlugins := True,
                       automationScore := automationScore results + 1 / 2\<rparr> else results);
         results =
           (if 0 < automationScore results then
              (let results = (if f then results\<lparr>automationScore :=
                                 automationScore results + 1 / 2\<rparr> else results);
                   results = (if g then results\<lparr>automationScore :=
                                 automationScore results + 1\<rparr> else results);
                   results = (if h then results\<lparr>automationScore :=
                                 automationScore results + 1 / 2\<rparr> else results)
               in results)
            else results)
     in results)"
    unfolding detectAutomation_def a_def b_def c_def d_def e_def f_def g_def h_def
      explicitMarker_def headlessSubstring_def frameworkGlobal_def injectedAttribute_def
      zeroPlugins_def exemptPlatform_def missingLanguages_def chromeWithoutGlobal_def
      mobileWithoutTouch_def Let_def
    by (simp only: de_Morgan_disj)
  show ?thesis
    unfolding D p s
    by (cases a; cases b; cases c; cases d; cases e; cases f; cases g; cases h;
        simp add: weight_def)
qed

theorem detectAutomation_score_witness:
  "automationScore (detectAutomation seleniumChrome) = 9 / 2 \<and>
   automationScore (detectAutomation desktopChrome) = 0"
proof -
  have "primaryScore seleniumChrome = 3" by code_simp
  moreover have "secondaryScore seleniumChrome = 3 / 2" by code_simp
  moreover have "primaryScore desktopChrome = 0" by code_simp
  ultimately show ?thesis
    using detectAutomation_score [of seleniumChrome] detectAutomation_score [of desktopChrome]
    by simp
qed

section \<open>Suspicious pattern evaluator: counts and verdict\<close>

text \<open>
  C4. For every environment the evaluator answers "too suspicious" exactly when
  \<open>checkedCount > 0\<close> and \<open>suspiciousCount / checkedCount > 0.3\<close>. The quotient is
  computed only behind the guard \<open>totalChecks > 0\<close>, where it is the finite ratio; with
  no check enabled the checked count is 0, the ratio is taken as 0, and the verdict is
  "not suspicious".
\<close>

theorem hasTooManySuspiciousPatterns_verdict:
  "(hasTooManySuspiciousPatterns patterns env fingerprint \<longleftrightarrow>
      0 < snd (suspicionCounts patterns env) \<and>
      3 / 10 < rat_of_nat (fst (suspicionCounts patterns env)) /
               rat_of_nat (snd (suspicionCounts patterns env))) \<and>
   (0 < snd (suspicionCounts patterns env) \<longrightarrow>
      js_div (fst (suspicionCounts patterns env)) (snd (suspicionCounts patterns env)) =
        Num (suspicionRatio (fst (suspicionCounts patterns env))
               (snd (suspicionCounts patterns env)))) \<and>
   (\<not> mismatchedUA patterns \<and> \<not> tamperedDOM patterns \<longrightarrow>
      snd (suspicionCounts patterns env) = 0 \<and>
      suspicionRatio (fst (suspicionCounts patterns env))
        (snd (suspicionCounts patterns env)) = 0 \<and>
      \<not> hasTooManySuspiciousPatterns patterns env fingerprint)"
  by (auto simp: hasTooManySuspiciousPatterns_def js_div_def suspicionRatio_def
      suspicionCounts_def Let_def)

theorem hasTooManySuspiciousPatterns_verdict_witness:
  "\<not> hasTooManySuspiciousPatterns noChecks spoofedAgent () \<and>
   suspicionCounts noChecks spoofedAgent = (0, 0) \<and>
   hasTooManySuspiciousPatterns defaultPatterns spoofedAgent () \<and>
   \<not> hasTooManySuspiciousPatterns defaultPatterns desktopChrome ()"
proof -
  have a: "\<not> mismatchedUA noChecks \<and> \<not> tamperedDOM noChecks"
    by (simp add: noChecks_def)
  have b: "suspicionCounts noChecks spoofedAgent = (0, 0)"
    by (simp add: suspicionCounts_def a)
  have c: "suspicionCounts defaultPatterns spoofedAgent = (3, 2)"
    by code_simp
  have d: "suspicionCounts defaultPatterns desktopChrome = (0, 2)"
    by code_simp
  show ?thesis
    using hasTooManySuspiciousPatterns_verdict [of noChecks spoofedAgent "()"]
      hasTooManySuspiciousPatterns_verdict [of defaultPatterns spoofedAgent "()"]
      hasTooManySuspiciousPatterns_verdict [of defaultPatterns desktopChrome "()"] a b c d
    by simp
qed

lemma mismatchedUA_block_bounds:
  "snd (mismatchedUA_block env c) = snd c + 1 \<and>
   fst c \<le> fst (mismatchedUA_block env c) \<and>
   fst (mismatchedUA_block env c) \<le> fst c + 2"
  by (simp add: mismatchedUA_block_def Let_def)

lemma tamperedDOM_block_bounds:
  "snd (tamperedDOM_block env c) = snd c + 1 \<and>
   fst c \<le> fst (tamperedDOM_block env c) \<and>
   fst (tamperedDOM_block env c) \<le> fst c + 1"
  by (simp add: tamperedDOM_block_def Let_def split: errorProbe.splits)

text \<open>
  C5, as the code has it. Each enabled check raises the checked count by exactly one.
  The identity check adds up to two to the suspicious count (one per browser family
  whose marker is missing) and the error check at most one, so the suspicious count
  is at most the checked count plus one and the ratio is at most 2. The claim's bounds
  (suspicious count at most checked count, ratio at most 1) fail: see the
  counterexample.
\<close>

theorem suspicionCounts_bounds:
  "snd (suspicionCounts patterns env) =
     (if mismatchedUA patterns then 1 else 0) + (if tamperedDOM patterns then 1 else 0) \<and>
   fst (suspicionCounts patterns env) \<le>
     (if mismatchedUA patterns then 2 else 0) + (if tamperedDOM patterns then 1 else 0) \<and>
   fst (suspicionCounts patterns env) \<le> snd (suspicionCounts patterns env) + 1 \<and>
   suspicionRatio (fst (suspicionCounts patterns env)) (snd (suspicionCounts patterns env)) \<le> 2"
proof -
  define s where "s = fst (suspicionCounts patterns env)"
  define t where "t = snd (suspicionCounts patterns env)"
  have t: "t = (if mismatchedUA patterns then 1 else 0) + (if tamperedDOM patterns then 1 else 0)"
    using mismatchedUA_block_bounds [of env "(0, 0)"]
      tamperedDOM_block_bounds [of env "(0, 0)"]
      tamperedDOM_block_bounds [of env "mismatchedUA_block env (0, 0)"]
    by (simp add: t_def suspicionCounts_def Let_def)
  have s: "s \<le> (if mismatchedUA patterns then 2 else 0) + (if tamperedDOM patterns then 1 else 0)"
    using mismatchedUA_block_bounds [of env "(0, 0)"]
      tamperedDOM_block_bounds [of env "(0, 0)"]
      tamperedDOM_block_bounds [of env "mismatchedUA_block env (0, 0)"]
    by (simp add: s_def suspicionCounts_def Let_def)
  have st: "s \<le> t + 1" using s t by (simp split: if_splits)
  have "s \<le> 2 * t" using s t by (simp split: if_splits)
  then have "rat_of_nat s \<le> 2 * rat_of_nat t"
    by (metis of_nat_le_iff of_nat_mult of_nat_numeral)
  then have "suspicionRatio s t \<le> 2"
    by (simp add: suspicionRatio_def divide_le_eq)
  then show ?thesis using s t st unfolding s_def t_def by simp
qed

theorem suspicionCounts_bounds_witness:
  "snd (suspicionCounts defaultPatterns spoofedAgent) = 2 \<and>
   fst (suspicionCounts defaultPatterns spoofedAgent) \<le> 3 \<and>
   suspicionRatio (fst (suspicionCounts defaultPatterns spoofedAgent))
     (snd (suspicionCounts defaultPatterns spoofedAgent)) \<le> 2"
proof -
  have a: "mismatchedUA defaultPatterns = True" "tamperedDOM defaultPatterns = True"
    by (simp_all add: defaultPatterns_def)
  show ?thesis
    using suspicionCounts_bounds [of defaultPatterns spoofedAgent]
    unfolding a if_True by auto
qed

text \<open>
  A user agent that names both Chrome and Firefox, no \<^verbatim>\<open>window.chrome\<close>, no
  \<^verbatim>\<open>InstallTrigger\<close> and an error without a stack: three suspicious findings in two
  checks.
\<close>

theorem suspicionCounts_exceeds_counterexample:
  "fst (suspicionCounts defaultPatterns spoofedAgent) = 3 \<and>
   snd (suspicionCounts defaultPatterns spoofedAgent) = 2 \<and>
   \<not> fst (suspicionCounts defaultPatterns spoofedAgent) \<le>
       snd (suspicionCounts defaultPatterns spoofedAgent) \<and>
   \<not> suspicionRatio (fst (suspicionCounts defaultPatterns spoofedAgent))
       (snd (suspicionCounts defaultPatterns spoofedAgent)) \<le> 1"
proof -
  have "suspicionCounts defaultPatterns spoofedAgent = (3, 2)"
    by code_simp
  then show ?thesis by (simp add: suspicionRatio_def)
qed

text \<open>
  C10. The verdict does not depend on the fingerprint argument: two evaluations under
  the same switches, in environments with the same user agent, the same presence of
  the \<^verbatim>\<open>chrome\<close> and \<^verbatim>\<open>InstallTrigger\<close> globals and the same behaviour of the error
  stack, agree whatever fingerprints are passed.
\<close>

theorem hasTooManySuspiciousPatterns_independent:
  assumes "userAgent env1 = userAgent env2"
    and "(window_chrome env1 = JUndefined) = (window_chrome env2 = JUndefined)"
    and "(window_InstallTrigger env1 = JUndefined) = (window_InstallTrigger env2 = JUndefined)"
    and "errorProbe env1 = errorProbe env2"
  shows "hasTooManySuspiciousPatterns patterns env1 fingerprint1 =
         hasTooManySuspiciousPatterns patterns env2 fingerprint2"
proof -
  have u: "(typeof v = ''undefined'') = (v = JUndefined)" for v
    by (cases v) simp_all
  have m: "mismatchedUA_block env1 c = mismatchedUA_block env2 c" for c
    using assms by (simp add: mismatchedUA_block_def u Let_def)
  have t: "tamperedDOM_block env1 c = tamperedDOM_block env2 c" for c
    using assms by (simp add: tamperedDOM_block_def Let_def)
  have "suspicionCounts patterns env1 = suspicionCounts patterns env2"
    by (simp add: suspicionCounts_def m t Let_def)
  then show ?thesis by (simp add: hasTooManySuspiciousPatterns_def)
qed

theorem hasTooManySuspiciousPatterns_independent_witness:
  "hasTooManySuspiciousPatterns defaultPatterns desktopChrome (0 :: nat) =
   hasTooManySuspiciousPatterns defaultPatterns
     (desktopChrome\<lparr>navigator_plugins_length := 0, clientIdentifier := ''other''\<rparr>)
     ''canvas:none''"
  using hasTooManySuspiciousPatterns_independent [of desktopChrome
      "desktopChrome\<lparr>navigator_plugins_length := 0, clientIdentifier := ''other''\<rparr>"
      defaultPatterns "0 :: nat" "''canvas:none''"]
  by simp

section \<open>Penalty ledger: removing expired entries\<close>

lemma cleanupLoop_map_of:
  "map_of (fst (cleanupLoop now keys (bl, m))) k =
     (case map_of bl k of
        None \<Rightarrow> None
      | Some e \<Rightarrow> if k \<in> set keys \<and> expires e < now then None else Some e)"
proof (induction keys arbitrary: bl m)
  case Nil
  then show ?case by (simp split: option.splits)
next
  case (Cons c keys)
  show ?case
  proof (cases "map_of bl c")
    case None
    then show ?thesis using Cons.IH [of bl m] by (auto split: option.splits)
  next
    case (Some e)
    show ?thesis
    proof (cases "expires e < now")
      case True
      then show ?thesis
        using Some Cons.IH [of "AList.delete c bl" True]
        by (auto simp: delete_conv' split: option.splits)
    next
      case False
      then show ?thesis
        using Some Cons.IH [of bl m] by (auto split: option.splits)
    qed
  qed
qed

lemma cleanupLoop_unmodified:
  "\<not> snd (cleanupLoop now keys (bl, m)) \<Longrightarrow> cleanupLoop now keys (bl, m) = (bl, False)"
proof (induction keys arbitrary: bl m)
  case Nil
  then show ?case by simp
next
  case (Cons c keys)
  have stays: "snd (cleanupLoop now ks (b, True))" for ks b
    by (induction ks arbitrary: b) (auto split: option.splits)
  from Cons show ?case
    using stays by (auto split: option.splits if_splits)
qed

lemma cleanupLoop_none_expired:
  "(\<And>k e. map_of bl k = Some e \<Longrightarrow> \<not> expires e < now) \<Longrightarrow>
   cleanupLoop now keys (bl, m) = (bl, m)"
  by (induction keys) (auto split: option.splits)

lemma cleanup_all_keys:
  "map_of (fst (cleanupLoop now (map fst bl) (bl, m))) k =
     (case map_of bl k of
        None \<Rightarrow> None
      | Some e \<Rightarrow> if expires e < now then None else Some e)"
proof -
  have "k \<in> set (map fst bl)" if "map_of bl k = Some e" for e
    using map_of_SomeD [OF that] by force
  then show ?thesis
    by (auto simp: cleanupLoop_map_of split: option.splits)
qed

lemma readBlacklist_Inr:
  "readBlacklist ls = Inr bl \<Longrightarrow> \<not> getItem_throws ls"
  by (auto simp: readBlacklist_def getItem_blacklist_def split: if_splits)

lemma readBlacklist_written:
  "\<not> getItem_throws ls \<Longrightarrow>
   readBlacklist (ls\<lparr>captcha_blacklist := JSONObject bl\<rparr>) = Inr bl"
  by (simp add: readBlacklist_def getItem_blacklist_def parseOrEmpty_def)

lemma cleanup_idempotent:
  "cleanupExpiredEntries now (cleanupExpiredEntries now this) = cleanupExpiredEntries now this"
proof (cases "readBlacklist (localStorage this)")
  case (Inl e)
  then show ?thesis
    by (simp add: cleanupExpiredEntries_def cleanupExpiredEntries_try_def)
next
  case (Inr bl)
  define res where "res = cleanupLoop now (map fst bl) (bl, False)"
  show ?thesis
  proof (cases "snd res \<and> \<not> setItem_throws (localStorage this)")
    case False
    then have "cleanupExpiredEntries now this = this"
      using Inr
      by (auto simp: cleanupExpiredEntries_def cleanupExpiredEntries_try_def res_def
          setItem_blacklist_def Let_def)
    then show ?thesis by simp
  next
    case True
    define this' where
      "this' = this\<lparr>localStorage :=
                      (localStorage this)\<lparr>captcha_blacklist := JSONObject (fst res)\<rparr>,
                    blacklistedIPs := map fst (fst res)\<rparr>"
    have first: "cleanupExpiredEntries now this = this'"
      using Inr True
      by (simp add: cleanupExpiredEntries_def cleanupExpiredEntries_try_def res_def
          setItem_blacklist_def Let_def this'_def)
    have read': "readBlacklist (localStorage this') = Inr (fst res)"
      using readBlacklist_Inr [OF Inr] by (simp add: this'_def readBlacklist_written)
    have "\<not> expires e < now" if "map_of (fst res) k = Some e" for k e
      using that unfolding res_def cleanup_all_keys by (auto split: option.splits if_splits)
    then have "cleanupLoop now (map fst (fst res)) (fst res, False) = (fst res, False)"
      by (rule cleanupLoop_none_expired)
    then have "cleanupExpiredEntries now this' = this'"
      using read'
      by (simp add: cleanupExpiredEntries_def cleanupExpiredEntries_try_def Let_def)
    then show ?thesis using first by simp
  qed
qed

lemma cleanup_stored:
  assumes "\<not> setItem_throws (localStorage this)"
  shows "storedBlacklist (cleanupExpiredEntries now this) cid =
           (case storedBlacklist this cid of
              None \<Rightarrow> None
            | Some e \<Rightarrow> if expires e < now then None else Some e)"
proof (cases "readBlacklist (localStorage this)")
  case (Inl e)
  then show ?thesis
    by (simp add: cleanupExpiredEntries_def cleanupExpiredEntries_try_def storedBlacklist_def)
next
  case (Inr bl)
  define res where "res = cleanupLoop now (map fst bl) (bl, False)"
  have stored: "storedBlacklist this = map_of bl"
    using Inr by (simp add: storedBlacklist_def)
  have filtered: "map_of (fst res) cid =
      (case map_of bl cid of None \<Rightarrow> None
       | Some e \<Rightarrow> if expires e < now then None else Some e)"
    unfolding res_def by (rule cleanup_all_keys)
  show ?thesis
  proof (cases "snd res")
    case False
    then have "res = (bl, False)"
      unfolding res_def by (rule cleanupLoop_unmodified)
    moreover have "cleanupExpiredEntries now this = this"
      using Inr False
      by (simp add: cleanupExpiredEntries_def cleanupExpiredEntries_try_def res_def Let_def)
    ultimately show ?thesis using filtered stored by simp
  next
    case True
    have "cleanupExpiredEntries now this =
        this\<lparr>localStorage := (localStorage this)\<lparr>captcha_blacklist := JSONObject (fst res)\<rparr>,
             blacklistedIPs := map fst (fst res)\<rparr>"
      using Inr True assms
      by (simp add: cleanupExpiredEntries_def cleanupExpiredEntries_try_def res_def
          setItem_blacklist_def Let_def)
    then have "storedBlacklist (cleanupExpiredEntries now this) = map_of (fst res)"
      using readBlacklist_Inr [OF Inr] by (simp add: storedBlacklist_def readBlacklist_written)
    then show ?thesis using filtered stored by simp
  qed
qed

text \<open>
  C8. For every stored blacklist and every time \<open>now\<close>, \<open>cleanupExpiredEntries\<close>
  removes exactly the entries with \<open>expires < now\<close> and leaves every other entry as it
  was (the storage accepting the write), and a second run at the same instant changes
  nothing.
\<close>

theorem cleanupExpiredEntries_removes_expired:
  assumes "\<not> setItem_throws (localStorage this)"
  shows "(\<forall>cid. storedBlacklist (cleanupExpiredEntries now this) cid =
            (case storedBlacklist this cid of
               None \<Rightarrow> None
             | Some e \<Rightarrow> if expires e < now then None else Some e)) \<and>
         cleanupExpiredEntries now (cleanupExpiredEntries now this) =
           cleanupExpiredEntries now this"
  using assms by (simp add: cleanup_stored cleanup_idempotent)

theorem cleanupExpiredEntries_removes_expired_witness:
  "\<not> setItem_throws (localStorage threeEntries) \<and>
   storedBlacklist (cleanupExpiredEntries 1000 threeEntries) ''old'' = None \<and>
   storedBlacklist (cleanupExpiredEntries 1000 threeEntries) ''edge'' =
     Some \<lparr>added = 0, expires = 1000, entryReasons = []\<rparr> \<and>
   storedBlacklist (cleanupExpiredEntries 1000 threeEntries) ''new'' =
     Some \<lparr>added = 0, expires = 1500, entryReasons = []\<rparr> \<and>
   cleanupExpiredEntries 1000 (cleanupExpiredEntries 1000 threeEntries) =
     cleanupExpiredEntries 1000 threeEntries"
proof -
  have h: "\<not> setItem_throws (localStorage threeEntries)"
    by (simp add: threeEntries_def emptyStorage_def)
  have s: "storedBlacklist threeEntries =
      map_of [(''old'', \<lparr>added = 0, expires = 500, entryReasons = []\<rparr>),
              (''edge'', \<lparr>added = 0, expires = 1000, entryReasons = []\<rparr>),
              (''new'', \<lparr>added = 0, expires = 1500, entryReasons = []\<rparr>)]"
    by (simp add: storedBlacklist_def threeEntries_def emptyStorage_def readBlacklist_def
        getItem_blacklist_def parseOrEmpty_def)
  from cleanupExpiredEntries_removes_expired [OF h, of 1000] h s show ?thesis by simp
qed

section \<open>Penalty ledger: the blacklist test\<close>

text \<open>
  C2, as the code has it. For every client and every time \<open>now\<close>,
  \<open>isClientBlacklisted\<close> is true exactly when the stored blacklist has an entry for the
  client and \<open>now < expires\<close>: the comparison is strict, so at the instant
  \<open>now = expires\<close> the answer is already false.
\<close>

theorem isClientBlacklisted_strict: "isClientBlacklisted clientId now this \<longleftrightarrow>
   (\<exists>entry. storedBlacklist this clientId = Some entry \<and> now < expires entry)"
  by (auto simp: isClientBlacklisted_def isClientBlacklisted_try_def storedBlacklist_def
      split: sum.splits option.splits)

theorem isClientBlacklisted_strict_witness:
  "isClientBlacklisted ''edge'' 999 threeEntries \<and> \<not> isClientBlacklisted ''edge'' 1001 threeEntries"
proof -
  have "storedBlacklist threeEntries ''edge'' = Some \<lparr>added = 0, expires = 1000, entryReasons = []\<rparr>"
    by (simp add: storedBlacklist_def threeEntries_def emptyStorage_def readBlacklist_def
        getItem_blacklist_def parseOrEmpty_def)
  then show ?thesis
    using isClientBlacklisted_strict [of "''edge''" 999 threeEntries]
      isClientBlacklisted_strict [of "''edge''" 1001 threeEntries]
    by simp
qed

text \<open>The claim's boundary: an entry that expires at 1000, asked about at 1000.\<close>

theorem isClientBlacklisted_at_expiry_counterexample:
  "storedBlacklist threeEntries ''edge'' = Some \<lparr>added = 0, expires = 1000, entryReasons = []\<rparr> \<and>
   (1000 :: int) \<le> expires \<lparr>added = 0, expires = 1000, entryReasons = []\<rparr> \<and>
   \<not> isClientBlacklisted ''edge'' 1000 threeEntries"
  by (simp add: storedBlacklist_def isClientBlacklisted_def isClientBlacklisted_try_def
      threeEntries_def emptyStorage_def readBlacklist_def getItem_blacklist_def parseOrEmpty_def)

section \<open>Penalty ledger: counting failures\<close>

lemma saveFailedAttempts_fields:
  "failedAttempts (saveFailedAttempts this) = failedAttempts this \<and>
   thresholds (saveFailedAttempts this) = thresholds this \<and>
   blacklistedIPs (saveFailedAttempts this) = blacklistedIPs this \<and>
   getItem_throws (localStorage (saveFailedAttempts this)) = getItem_throws (localStorage this) \<and>
   setItem_throws (localStorage (saveFailedAttempts this)) = setItem_throws (localStorage this) \<and>
   captcha_blacklist (localStorage (saveFailedAttempts this)) = captcha_blacklist (localStorage this)"
  by (simp add: saveFailedAttempts_def setItem_failed_attempts_def)

lemma storedBlacklist_cong:
  "getItem_throws (localStorage a) = getItem_throws (localStorage b) \<Longrightarrow>
   captcha_blacklist (localStorage a) = captcha_blacklist (localStorage b) \<Longrightarrow>
   storedBlacklist a = storedBlacklist b"
  by (simp add: storedBlacklist_def readBlacklist_def getItem_blacklist_def)

lemma bumped_count:
  "count (bumped rsn clock this clientId) = failureCount this clientId + 1 \<and>
   reasons (bumped rsn clock this clientId) =
     failureReasons this clientId @ [(rsn, timestampNow clock)]"
  by (simp add: bumped_def failureCount_def failureReasons_def split: option.splits)

lemma recordFailedAttempt_unfold:
  "recordFailedAttempt rsn clock env this =
     (let clientId = getClientIdentifier env;
          r = bumped rsn clock this clientId;
          this1 = this\<lparr>failedAttempts := AList.update clientId r (failedAttempts this)\<rparr>
      in saveFailedAttempts
           (if maxFailedAttempts (thresholds this) \<le> count r
            then (addToBlacklist clientId (reasons r) (addedNow clock) (expiresNow clock) this1)
                   \<lparr>failedAttempts := AList.delete clientId (failedAttempts this1)\<rparr>
            else this1))"
proof -
  have upd: "AList.map_entry k f (AList.update k v al) = AList.update k (f v) al" for k f v
    and al :: "(string \<times> FailedAttempt) list"
    by (induction al) auto
  have me: "map_of al k = Some v \<Longrightarrow> AList.map_entry k f al = AList.update k (f v) al" for k f v
    and al :: "(string \<times> FailedAttempt) list"
    by (induction al) (auto split: if_splits)
  show ?thesis
  proof (cases "failureRecord this (getClientIdentifier env)")
    case None
    then show ?thesis
      by (simp add: recordFailedAttempt_def bumped_def failureRecord_def Let_def upd update_conv')
  next
    case (Some r)
    then show ?thesis
      by (simp add: recordFailedAttempt_def bumped_def failureRecord_def Let_def me update_conv')
  qed
qed

lemma addToBlacklist_fields:
  "failedAttempts (addToBlacklist clientId rs now1 now2 this) = failedAttempts this \<and>
   thresholds (addToBlacklist clientId rs now1 now2 this) = thresholds this \<and>
   getItem_throws (localStorage (addToBlacklist clientId rs now1 now2 this)) =
     getItem_throws (localStorage this) \<and>
   setItem_throws (localStorage (addToBlacklist clientId rs now1 now2 this)) =
     setItem_throws (localStorage this)"
  by (simp add: addToBlacklist_def addToBlacklist_try_def setItem_blacklist_def Let_def
      split: sum.splits if_splits)

lemma addToBlacklist_stored:
  assumes "storageWorks this"
  shows "storedBlacklist (addToBlacklist clientId rs now1 now2 this) clientId =
           Some \<lparr>added = now1,
                 expires = now2 + blacklistDuration (thresholds this) * 1000,
                 entryReasons = rs\<rparr>"
proof -
  obtain bl where bl: "readBlacklist (localStorage this) = Inr bl"
    using assms
    by (cases "captcha_blacklist (localStorage this)")
      (simp_all add: storageWorks_def readBlacklist_def getItem_blacklist_def parseOrEmpty_def)
  show ?thesis
    using assms bl
    by (simp add: storageWorks_def addToBlacklist_def addToBlacklist_try_def
        setItem_blacklist_def Let_def storedBlacklist_def readBlacklist_def
        getItem_blacklist_def parseOrEmpty_def update_conv')
qed

lemma addToBlacklist_blocked:
  "getItem_throws (localStorage this) \<Longrightarrow>
   addToBlacklist_try clientId rs now1 now2 this = Inl StorageError \<and>
   addToBlacklist clientId rs now1 now2 this = this"
  by (simp add: addToBlacklist_def addToBlacklist_try_def readBlacklist_def
      getItem_blacklist_def)

lemma addToBlacklist_fails:
  "\<not> storageWorks this \<Longrightarrow> addToBlacklist clientId rs now1 now2 this = this"
  by (cases "captcha_blacklist (localStorage this)")
    (auto simp: storageWorks_def addToBlacklist_def addToBlacklist_try_def readBlacklist_def
      getItem_blacklist_def parseOrEmpty_def setItem_blacklist_def Let_def)

lemma recordFailedAttempt_below:
  assumes "failureCount this (getClientIdentifier env) + 1 < maxFailedAttempts (thresholds this)"
  shows "failureRecord (recordFailedAttempt rsn clock env this) (getClientIdentifier env) =
           Some (bumped rsn clock this (getClientIdentifier env)) \<and>
         thresholds (recordFailedAttempt rsn clock env this) = thresholds this \<and>
         blacklistedIPs (recordFailedAttempt rsn clock env this) = blacklistedIPs this \<and>
         getItem_throws (localStorage (recordFailedAttempt rsn clock env this)) =
           getItem_throws (localStorage this) \<and>
         setItem_throws (localStorage (recordFailedAttempt rsn clock env this)) =
           setItem_throws (localStorage this) \<and>
         captcha_blacklist (localStorage (recordFailedAttempt rsn clock env this)) =
           captcha_blacklist (localStorage this)"
  using assms bumped_count [of rsn clock this "getClientIdentifier env"]
  by (simp add: recordFailedAttempt_unfold Let_def saveFailedAttempts_fields
      failureRecord_def update_conv')

lemma recordFailedAttempt_reached:
  assumes "maxFailedAttempts (thresholds this) \<le> failureCount this (getClientIdentifier env) + 1"
  shows "failureRecord (recordFailedAttempt rsn clock env this) (getClientIdentifier env) = None"
  using assms bumped_count [of rsn clock this "getClientIdentifier env"]
  by (simp add: recordFailedAttempt_unfold Let_def saveFailedAttempts_fields
      failureRecord_def delete_conv')

lemma recordFailedAttempt_promotes:
  assumes "maxFailedAttempts (thresholds this) \<le> failureCount this (getClientIdentifier env) + 1"
    and "storageWorks this"
  shows "storedBlacklist (recordFailedAttempt rsn clock env this) (getClientIdentifier env) =
           Some \<lparr>added = addedNow clock,
                 expires = expiresNow clock + blacklistDuration (thresholds this) * 1000,
                 entryReasons =
                   failureReasons this (getClientIdentifier env) @ [(rsn, timestampNow clock)]\<rparr>"
proof -
  define cid where "cid = getClientIdentifier env"
  define r where "r = bumped rsn clock this cid"
  define this1 where
    "this1 = this\<lparr>failedAttempts := AList.update cid r (failedAttempts this)\<rparr>"
  define this2 where
    "this2 = addToBlacklist cid (reasons r) (addedNow clock) (expiresNow clock) this1"
  have "storageWorks this1"
    using assms(2) by (simp add: storageWorks_def this1_def)
  then have st: "storedBlacklist this2 cid =
      Some \<lparr>added = addedNow clock,
            expires = expiresNow clock + blacklistDuration (thresholds this1) * 1000,
            entryReasons = reasons r\<rparr>"
    unfolding this2_def by (rule addToBlacklist_stored)
  have rec: "recordFailedAttempt rsn clock env this =
      saveFailedAttempts (this2\<lparr>failedAttempts := AList.delete cid (failedAttempts this1)\<rparr>)"
    using assms(1) bumped_count [of rsn clock this cid]
    by (simp add: recordFailedAttempt_unfold Let_def cid_def r_def this1_def this2_def)
  have "storedBlacklist (recordFailedAttempt rsn clock env this) = storedBlacklist this2"
    unfolding rec by (rule storedBlacklist_cong) (simp_all add: saveFailedAttempts_fields)
  then show ?thesis
    using st bumped_count [of rsn clock this cid]
    by (simp add: cid_def r_def this1_def)
qed

lemma recordFailedAttempt_no_entry:
  assumes "maxFailedAttempts (thresholds this) \<le> failureCount this (getClientIdentifier env) + 1"
    and "\<not> storageWorks this"
  shows "storedBlacklist (recordFailedAttempt rsn clock env this) = storedBlacklist this \<and>
         blacklistedIPs (recordFailedAttempt rsn clock env this) = blacklistedIPs this"
proof -
  define cid where "cid = getClientIdentifier env"
  define r where "r = bumped rsn clock this cid"
  define this1 where
    "this1 = this\<lparr>failedAttempts := AList.update cid r (failedAttempts this)\<rparr>"
  have "\<not> storageWorks this1"
    using assms(2) by (simp add: storageWorks_def this1_def)
  then have same: "addToBlacklist cid (reasons r) (addedNow clock) (expiresNow clock) this1 = this1"
    by (rule addToBlacklist_fails)
  have rec: "recordFailedAttempt rsn clock env this =
      saveFailedAttempts (this1\<lparr>failedAttempts := AList.delete cid (failedAttempts this1)\<rparr>)"
    using assms(1) bumped_count [of rsn clock this cid] same
    by (simp add: recordFailedAttempt_unfold Let_def cid_def r_def this1_def)
  have "storedBlacklist (recordFailedAttempt rsn clock env this) = storedBlacklist this"
    unfolding rec
    by (rule storedBlacklist_cong) (simp_all add: saveFailedAttempts_fields this1_def)
  moreover have "blacklistedIPs (recordFailedAttempt rsn clock env this) = blacklistedIPs this"
    unfolding rec by (simp add: saveFailedAttempts_fields this1_def)
  ultimately show ?thesis by simp
qed

lemma recordFailedAttempts_append:
  "recordFailedAttempts (xs @ ys) env this =
     recordFailedAttempts ys env (recordFailedAttempts xs env this)"
  by (induction xs arbitrary: this) auto

lemma failureCount_bumped:
  "failureRecord this' cid = Some (bumped rsn clock this cid) \<Longrightarrow>
   failureCount this' cid = failureCount this cid + 1 \<and>
   failureReasons this' cid = failureReasons this cid @ [(rsn, timestampNow clock)]"
  using bumped_count [of rsn clock this cid]
  by (simp add: failureCount_def failureReasons_def)

lemma recordFailedAttempts_below:
  assumes "failureCount this (getClientIdentifier env) + int (length calls) <
             maxFailedAttempts (thresholds this)"
  shows "failureCount (recordFailedAttempts calls env this) (getClientIdentifier env) =
           failureCount this (getClientIdentifier env) + int (length calls) \<and>
         failureReasons (recordFailedAttempts calls env this) (getClientIdentifier env) =
           failureReasons this (getClientIdentifier env) @ stamped calls \<and>
         thresholds (recordFailedAttempts calls env this) = thresholds this \<and>
         blacklistedIPs (recordFailedAttempts calls env this) = blacklistedIPs this \<and>
         getItem_throws (localStorage (recordFailedAttempts calls env this)) =
           getItem_throws (localStorage this) \<and>
         setItem_throws (localStorage (recordFailedAttempts calls env this)) =
           setItem_throws (localStorage this) \<and>
         captcha_blacklist (localStorage (recordFailedAttempts calls env this)) =
           captcha_blacklist (localStorage this)"
  using assms
proof (induction calls arbitrary: this)
  case Nil
  then show ?case by (simp add: stamped_def)
next
  case (Cons call calls)
  obtain rsn clock where call: "call = (rsn, clock)" by (cases call)
  define this' where "this' = recordFailedAttempt rsn clock env this"
  have below: "failureCount this (getClientIdentifier env) + 1 <
      maxFailedAttempts (thresholds this)"
    using Cons.prems by simp
  note step = recordFailedAttempt_below [OF below, of rsn clock, folded this'_def]
  note cnt = failureCount_bumped [OF step [THEN conjunct1]]
  have "failureCount this' (getClientIdentifier env) + int (length calls) <
      maxFailedAttempts (thresholds this')"
    using Cons.prems step cnt by simp
  from Cons.IH [OF this] show ?case
    using step cnt by (simp add: call this'_def stamped_def)
qed

text \<open>
  C1, as the code has it. For a client that has no failure record yet, and a positive
  threshold: \<open>maxFailedAttempts\<close> calls of \<open>recordFailedAttempt\<close> delete the client's
  failure record and, when the storage can be read, parsed and written, create its
  blacklist entry (\<open>added\<close> and \<open>expires\<close> from the two clock readings of the last
  call, all the reasons with their time stamps); when the storage cannot, no entry is
  created and the stored blacklist stays as it was. One call fewer creates no entry
  and leaves the record with the count \<open>maxFailedAttempts - 1\<close>.
\<close>

theorem recordFailedAttempt_threshold:
  assumes "failureRecord this (getClientIdentifier env) = None"
    and "0 < maxFailedAttempts (thresholds this)"
  shows "(int (length calls) = maxFailedAttempts (thresholds this) \<longrightarrow>
            failureRecord (recordFailedAttempts calls env this) (getClientIdentifier env) = None \<and>
            (storageWorks this \<longrightarrow>
               storedBlacklist (recordFailedAttempts calls env this) (getClientIdentifier env) =
                 Some \<lparr>added = addedNow (snd (last calls)),
                       expires = expiresNow (snd (last calls)) +
                                 blacklistDuration (thresholds this) * 1000,
                       entryReasons = stamped calls\<rparr>) \<and>
            (\<not> storageWorks this \<longrightarrow>
               storedBlacklist (recordFailedAttempts calls env this) = storedBlacklist this \<and>
               blacklistedIPs (recordFailedAttempts calls env this) = blacklistedIPs this)) \<and>
         (int (length calls) = maxFailedAttempts (thresholds this) - 1 \<longrightarrow>
            storedBlacklist (recordFailedAttempts calls env this) = storedBlacklist this \<and>
            blacklistedIPs (recordFailedAttempts calls env this) = blacklistedIPs this \<and>
            failureCount (recordFailedAttempts calls env this) (getClientIdentifier env) =
              maxFailedAttempts (thresholds this) - 1 \<and>
            failureReasons (recordFailedAttempts calls env this) (getClientIdentifier env) =
              stamped calls)"
proof -
  define cid where "cid = getClientIdentifier env"
  have zero: "failureCount this cid = 0" "failureReasons this cid = []"
    using assms(1) by (simp_all add: failureCount_def failureReasons_def cid_def)
  have fewer: "storedBlacklist (recordFailedAttempts calls env this) = storedBlacklist this \<and>
      blacklistedIPs (recordFailedAttempts calls env this) = blacklistedIPs this \<and>
      failureCount (recordFailedAttempts calls env this) cid =
        maxFailedAttempts (thresholds this) - 1 \<and>
      failureReasons (recordFailedAttempts calls env this) cid = stamped calls"
    if len: "int (length calls) = maxFailedAttempts (thresholds this) - 1"
  proof -
    have "failureCount this cid + int (length calls) < maxFailedAttempts (thresholds this)"
      using zero len by simp
    note inv = recordFailedAttempts_below [OF this [unfolded cid_def], folded cid_def]
    have "storedBlacklist (recordFailedAttempts calls env this) = storedBlacklist this"
      by (rule storedBlacklist_cong) (simp_all add: inv)
    then show ?thesis using inv zero len by simp
  qed
  have exact: "failureRecord (recordFailedAttempts calls env this) cid = None \<and>
      (storageWorks this \<longrightarrow>
         storedBlacklist (recordFailedAttempts calls env this) cid =
           Some \<lparr>added = addedNow (snd (last calls)),
                 expires = expiresNow (snd (last calls)) +
                           blacklistDuration (thresholds this) * 1000,
                 entryReasons = stamped calls\<rparr>) \<and>
      (\<not> storageWorks this \<longrightarrow>
         storedBlacklist (recordFailedAttempts calls env this) = storedBlacklist this \<and>
         blacklistedIPs (recordFailedAttempts calls env this) = blacklistedIPs this)"
    if len: "int (length calls) = maxFailedAttempts (thresholds this)"
  proof -
    have "calls \<noteq> []" using len assms(2) by auto
    then obtain firsts rsn clock where calls: "calls = firsts @ [(rsn, clock)]"
      by (metis rev_exhaust surj_pair)
    define mid where "mid = recordFailedAttempts firsts env this"
    have "failureCount this cid + int (length firsts) < maxFailedAttempts (thresholds this)"
      using zero len calls by simp
    note inv = recordFailedAttempts_below [OF this [unfolded cid_def], folded mid_def cid_def]
    have final: "recordFailedAttempts calls env this = recordFailedAttempt rsn clock env mid"
      by (simp add: calls recordFailedAttempts_append mid_def)
    have reach: "maxFailedAttempts (thresholds mid) \<le>
        failureCount mid (getClientIdentifier env) + 1"
      using inv zero len calls by (simp add: cid_def)
    have works: "storageWorks mid = storageWorks this"
      by (simp add: storageWorks_def inv)
    have same: "storedBlacklist mid = storedBlacklist this"
      by (rule storedBlacklist_cong) (simp_all add: inv)
    have gone: "failureRecord (recordFailedAttempts calls env this) cid = None"
      unfolding final cid_def by (rule recordFailedAttempt_reached [OF reach])
    have made: "storedBlacklist (recordFailedAttempts calls env this) cid =
        Some \<lparr>added = addedNow (snd (last calls)),
              expires = expiresNow (snd (last calls)) +
                        blacklistDuration (thresholds this) * 1000,
              entryReasons = stamped calls\<rparr>" if "storageWorks this"
      unfolding final
      using recordFailedAttempt_promotes [OF reach, of rsn clock] that works inv zero
      by (simp add: calls cid_def stamped_def)
    have none: "storedBlacklist (recordFailedAttempts calls env this) = storedBlacklist this \<and>
        blacklistedIPs (recordFailedAttempts calls env this) = blacklistedIPs this"
      if "\<not> storageWorks this"
      unfolding final
      using recordFailedAttempt_no_entry [OF reach, of rsn clock] that works same inv
      by simp
    show ?thesis using gone made none by blast
  qed
  show ?thesis using fewer exact unfolding cid_def by blast
qed

theorem recordFailedAttempt_threshold_witness:
  "storedBlacklist (recordFailedAttempts threeCalls desktopChrome blacklistSystem)
     (getClientIdentifier desktopChrome) =
     Some \<lparr>added = 3002, expires = 86403003,
           entryReasons = [(''honeypot_filled'', 1001), (''no_interactions'', 2001),
                           (''suspicious_fingerprint'', 3001)]\<rparr> \<and>
   failureRecord (recordFailedAttempts threeCalls desktopChrome blacklistSystem)
     (getClientIdentifier desktopChrome) = None \<and>
   storedBlacklist (recordFailedAttempts twoCalls desktopChrome blacklistSystem) =
     storedBlacklist blacklistSystem \<and>
   failureCount (recordFailedAttempts twoCalls desktopChrome blacklistSystem)
     (getClientIdentifier desktopChrome) = 2 \<and>
   storedBlacklist (recordFailedAttempts threeCalls desktopChrome fullSystem) =
     storedBlacklist fullSystem"
proof -
  have a: "failureRecord blacklistSystem (getClientIdentifier desktopChrome) = None"
    "failureRecord fullSystem (getClientIdentifier desktopChrome) = None"
    by (simp_all add: failureRecord_def blacklistSystem_def fullSystem_def)
  have b: "0 < maxFailedAttempts (thresholds blacklistSystem)"
    "0 < maxFailedAttempts (thresholds fullSystem)"
    by (simp_all add: blacklistSystem_def fullSystem_def)
  have c: "storageWorks blacklistSystem" "\<not> storageWorks fullSystem"
    by (simp_all add: storageWorks_def blacklistSystem_def fullSystem_def emptyStorage_def)
  have f: "maxFailedAttempts (thresholds blacklistSystem) = 3"
    "blacklistDuration (thresholds blacklistSystem) = 86400"
    "maxFailedAttempts (thresholds fullSystem) = 3"
    by (simp_all add: blacklistSystem_def fullSystem_def)
  have g: "int (length threeCalls) = 3" "int (length twoCalls) = 2"
    "addedNow (snd (last threeCalls)) = 3002" "expiresNow (snd (last threeCalls)) = 3003"
    "stamped threeCalls = [(''honeypot_filled'', 1001), (''no_interactions'', 2001),
                           (''suspicious_fingerprint'', 3001)]"
    by (simp_all add: threeCalls_def twoCalls_def stamped_def readingsFrom_def)
  show ?thesis
    using recordFailedAttempt_threshold [OF a(1) b(1), of threeCalls]
      recordFailedAttempt_threshold [OF a(1) b(1), of twoCalls]
      recordFailedAttempt_threshold [OF a(2) b(2), of threeCalls]
    by (simp add: c f g)
qed

text \<open>
  The claim without its condition on the storage: the storage is readable and full,
  the third call discards the record, and no entry is stored.
\<close>

theorem recordFailedAttempt_full_storage_counterexample:
  "int (length threeCalls) = maxFailedAttempts (thresholds fullSystem) \<and>
   failureRecord fullSystem (getClientIdentifier desktopChrome) = None \<and>
   failureRecord (recordFailedAttempts threeCalls desktopChrome fullSystem)
     (getClientIdentifier desktopChrome) = None \<and>
   storedBlacklist (recordFailedAttempts threeCalls desktopChrome fullSystem)
     (getClientIdentifier desktopChrome) = None \<and>
   captcha_blacklist (localStorage (recordFailedAttempts threeCalls desktopChrome fullSystem)) =
     NoItem \<and>
   blacklistedIPs (recordFailedAttempts threeCalls desktopChrome fullSystem) = []"
  by code_simp

section \<open>Penalty ledger: storage that fails\<close>

lemma blocked_recordFailedAttempt:
  assumes "getItem_throws (localStorage this)" and "setItem_throws (localStorage this)"
  shows "localStorage (recordFailedAttempt rsn clock env this) = localStorage this \<and>
         blacklistedIPs (recordFailedAttempt rsn clock env this) = blacklistedIPs this"
  using assms
  by (simp add: recordFailedAttempt_unfold Let_def saveFailedAttempts_def
      setItem_failed_attempts_def addToBlacklist_blocked)

lemma blocked_recordFailedAttempts:
  assumes "getItem_throws (localStorage this)" and "setItem_throws (localStorage this)"
  shows "localStorage (recordFailedAttempts calls env this) = localStorage this \<and>
         blacklistedIPs (recordFailedAttempts calls env this) = blacklistedIPs this"
  using assms
proof (induction calls arbitrary: this)
  case Nil
  then show ?case by simp
next
  case (Cons call calls)
  obtain rsn clock where call: "call = (rsn, clock)" by (cases call)
  note step = blocked_recordFailedAttempt [OF Cons.prems, of rsn clock env]
  have "getItem_throws (localStorage (recordFailedAttempt rsn clock env this))"
    "setItem_throws (localStorage (recordFailedAttempt rsn clock env this))"
    using step Cons.prems by simp_all
  from Cons.IH [OF this] show ?case using step by (simp add: call)
qed

text \<open>
  C9, as the code has it. When every read and write of the storage throws, no ledger
  operation raises: the body of each \<^verbatim>\<open>try\<close> ends in the storage exception and the
  \<^verbatim>\<open>catch\<close> returns. There is no in-memory ledger to fall back on: a promotion
  writes nothing, neither to the storage nor to the runtime list, and
  \<open>isClientBlacklisted\<close> answers false for every client, also for one just promoted.
\<close>

theorem blocked_storage_no_fallback:
  assumes "getItem_throws (localStorage this)" and "setItem_throws (localStorage this)"
  shows "isClientBlacklisted_try clientId now this = Inl StorageError \<and>
         \<not> isClientBlacklisted clientId now this \<and>
         cleanupExpiredEntries_try now this = Inl StorageError \<and>
         cleanupExpiredEntries now this = this \<and>
         addToBlacklist_try clientId rs now now' this = Inl StorageError \<and>
         addToBlacklist clientId rs now now' this = this \<and>
         localStorage (recordFailedAttempts calls env this) = localStorage this \<and>
         blacklistedIPs (recordFailedAttempts calls env this) = blacklistedIPs this \<and>
         \<not> isClientBlacklisted clientId later (recordFailedAttempts calls env this)"
proof -
  have r: "readBlacklist (localStorage this) = Inl StorageError"
    using assms by (simp add: readBlacklist_def getItem_blacklist_def)
  have "\<not> isClientBlacklisted clientId later (recordFailedAttempts calls env this)"
    using blocked_recordFailedAttempts [OF assms, of calls env] r
    by (simp add: isClientBlacklisted_def isClientBlacklisted_try_def)
  then show ?thesis
    using r blocked_recordFailedAttempts [OF assms, of calls env]
      addToBlacklist_blocked [OF assms(1), of clientId rs now now']
    by (simp add: isClientBlacklisted_def isClientBlacklisted_try_def
        cleanupExpiredEntries_def cleanupExpiredEntries_try_def)
qed

theorem blocked_storage_no_fallback_witness:
  "getItem_throws (localStorage blockedSystem) \<and> setItem_throws (localStorage blockedSystem) \<and>
   cleanupExpiredEntries 4000 blockedSystem = blockedSystem \<and>
   \<not> isClientBlacklisted (getClientIdentifier desktopChrome) 4000
       (recordFailedAttempts threeCalls desktopChrome blockedSystem)"
proof -
  have a: "getItem_throws (localStorage blockedSystem)"
    by (simp add: blockedSystem_def blockedStorage_def)
  have b: "setItem_throws (localStorage blockedSystem)"
    by (simp add: blockedSystem_def blockedStorage_def)
  from blocked_storage_no_fallback [OF a b, of "getClientIdentifier desktopChrome" 4000 "[]"
      4000 threeCalls desktopChrome 4000]
  show ?thesis using a b by simp
qed

text \<open>
  Three failures of one client with the storage blocked: the record is there after
  two, gone after three, and the client is not reported as blacklisted.
\<close>

theorem blocked_storage_counterexample:
  "failureRecord (recordFailedAttempts twoCalls desktopChrome blockedSystem)
     (getClientIdentifier desktopChrome) \<noteq> None \<and>
   failureRecord (recordFailedAttempts threeCalls desktopChrome blockedSystem)
     (getClientIdentifier desktopChrome) = None \<and>
   blacklistedIPs (recordFailedAttempts threeCalls desktopChrome blockedSystem) = [] \<and>
   \<not> isClientBlacklisted (getClientIdentifier desktopChrome) 4000
       (recordFailedAttempts threeCalls desktopChrome blockedSystem)"
  by code_simp

section \<open>Decision facade: which denials record a failure\<close>

text \<open>
  C3, as the code has it. A denial with reason \<open>known_bot\<close> or \<open>security_tool\<close> goes
  with one call of \<open>recordFailedAttempt\<close> in the same evaluation. Below the threshold
  that call raises the client's failure count by one. When the count reaches
  \<open>maxFailedAttempts\<close> it discards the failure record and, if the storage can be
  read, parsed and written, stores the client's blacklist entry; if the storage
  cannot, no entry is stored. A denial with reason \<open>blacklisted\<close> records nothing and
  leaves the object as it was.
\<close>

theorem checkBlacklist_records:
  "(reason (fst (checkBlacklist clock now env this)) = Some ''known_bot'' \<longrightarrow>
      snd (checkBlacklist clock now env this) =
        recordFailedAttempt ''known_bot_useragent'' clock env this) \<and>
   (reason (fst (checkBlacklist clock now env this)) = Some ''security_tool'' \<longrightarrow>
      snd (checkBlacklist clock now env this) =
        recordFailedAttempt ''security_tool_detected'' clock env this) \<and>
   (reason (fst (checkBlacklist clock now env this)) = Some ''blacklisted'' \<longrightarrow>
      snd (checkBlacklist clock now env this) = this) \<and>
   (failureCount this (getClientIdentifier env) + 1 < maxFailedAttempts (thresholds this) \<longrightarrow>
      failureCount (recordFailedAttempt rsn clock env this) (getClientIdentifier env) =
        failureCount this (getClientIdentifier env) + 1) \<and>
   (maxFailedAttempts (thresholds this) \<le> failureCount this (getClientIdentifier env) + 1 \<longrightarrow>
      failureRecord (recordFailedAttempt rsn clock env this) (getClientIdentifier env) = None \<and>
      (storageWorks this \<longrightarrow>
         storedBlacklist (recordFailedAttempt rsn clock env this) (getClientIdentifier env) =
           Some \<lparr>added = addedNow clock,
                 expires = expiresNow clock + blacklistDuration (thresholds this) * 1000,
                 entryReasons = failureReasons this (getClientIdentifier env) @
                                [(rsn, timestampNow clock)]\<rparr>) \<and>
      (\<not> storageWorks this \<longrightarrow>
         storedBlacklist (recordFailedAttempt rsn clock env this) = storedBlacklist this \<and>
         blacklistedIPs (recordFailedAttempt rsn clock env this) = blacklistedIPs this))"
proof -
  have bot: "reason (fst (checkBlacklist clock now env this)) = Some ''known_bot'' \<longrightarrow>
      snd (checkBlacklist clock now env this) =
        recordFailedAttempt ''known_bot_useragent'' clock env this"
    by (simp add: checkBlacklist_def deny_def Let_def split: option.splits)
  have tool: "reason (fst (checkBlacklist clock now env this)) = Some ''security_tool'' \<longrightarrow>
      snd (checkBlacklist clock now env this) =
        recordFailedAttempt ''security_tool_detected'' clock env this"
    by (simp add: checkBlacklist_def deny_def Let_def split: option.splits)
  have listed: "reason (fst (checkBlacklist clock now env this)) = Some ''blacklisted'' \<longrightarrow>
      snd (checkBlacklist clock now env this) = this"
    by (simp add: checkBlacklist_def deny_def Let_def split: option.splits)
  have below: "failureCount (recordFailedAttempt rsn clock env this) (getClientIdentifier env) =
      failureCount this (getClientIdentifier env) + 1"
    if "failureCount this (getClientIdentifier env) + 1 < maxFailedAttempts (thresholds this)"
    using recordFailedAttempt_below [OF that, of rsn clock, THEN conjunct1]
    by (simp add: failureCount_bumped)
  show ?thesis
    using bot tool listed below recordFailedAttempt_reached [of this env rsn clock]
      recordFailedAttempt_promotes [of this env rsn clock]
      recordFailedAttempt_no_entry [of this env rsn clock]
    by blast
qed

theorem checkBlacklist_records_witness:
  "reason (fst (checkBlacklist (readingsFrom 5000) 5000 botAgent blacklistSystem)) =
     Some ''known_bot'' \<and>
   failureCount (snd (checkBlacklist (readingsFrom 5000) 5000 botAgent blacklistSystem))
     (getClientIdentifier botAgent) = 1 \<and>
   reason (fst (checkBlacklist (readingsFrom 5000) 5000 botAgent twoStrikes)) =
     Some ''known_bot'' \<and>
   failureRecord (snd (checkBlacklist (readingsFrom 5000) 5000 botAgent twoStrikes))
     (getClientIdentifier botAgent) = None \<and>
   storedBlacklist (snd (checkBlacklist (readingsFrom 5000) 5000 botAgent twoStrikes))
     (getClientIdentifier botAgent) =
     Some \<lparr>added = 5002, expires = 86405003,
           entryReasons = [(''honeypot_filled'', 1001), (''no_interactions'', 2001),
                           (''known_bot_useragent'', 5001)]\<rparr>"
proof -
  have a: "reason (fst (checkBlacklist (readingsFrom 5000) 5000 botAgent blacklistSystem)) =
      Some ''known_bot''"
    "reason (fst (checkBlacklist (readingsFrom 5000) 5000 botAgent twoStrikes)) =
      Some ''known_bot''"
    by code_simp+
  have b: "failureCount blacklistSystem (getClientIdentifier botAgent) = 0"
    "failureCount twoStrikes (getClientIdentifier botAgent) = 2"
    "failureReasons twoStrikes (getClientIdentifier botAgent) =
       [(''honeypot_filled'', 1001), (''no_interactions'', 2001)]"
    by (simp_all add: failureCount_def failureReasons_def failureRecord_def blacklistSystem_def
        twoStrikes_def botAgent_def desktopChrome_def getClientIdentifier_def)
  have c: "maxFailedAttempts (thresholds blacklistSystem) = 3"
    "maxFailedAttempts (thresholds twoStrikes) = 3"
    "blacklistDuration (thresholds twoStrikes) = 86400"
    "storageWorks twoStrikes"
    by (simp_all add: blacklistSystem_def twoStrikes_def storageWorks_def emptyStorage_def)
  have d: "addedNow (readingsFrom 5000) = 5002" "expiresNow (readingsFrom 5000) = 5003"
    "timestampNow (readingsFrom 5000) = 5001"
    by (simp_all add: readingsFrom_def)
  show ?thesis
    using checkBlacklist_records [of "readingsFrom 5000" 5000 botAgent blacklistSystem
        "''known_bot_useragent''"]
      checkBlacklist_records [of "readingsFrom 5000" 5000 botAgent twoStrikes
        "''known_bot_useragent''"]
      a b c d
    by simp
qed

text \<open>
  A client whose entry is in the stored blacklist: the denial has the reason
  \<open>blacklisted\<close>, and the failure count is 0 before and after.
\<close>

theorem checkBlacklist_blacklisted_counterexample:
  "blocked (fst (checkBlacklist (readingsFrom 5000) 5000 desktopChrome listedChrome)) \<and>
   reason (fst (checkBlacklist (readingsFrom 5000) 5000 desktopChrome listedChrome)) =
     Some ''blacklisted'' \<and>
   failureCount listedChrome (getClientIdentifier desktopChrome) = 0 \<and>
   failureCount (snd (checkBlacklist (readingsFrom 5000) 5000 desktopChrome listedChrome))
     (getClientIdentifier desktopChrome) = 0 \<and>
   failedAttempts (snd (checkBlacklist (readingsFrom 5000) 5000 desktopChrome listedChrome)) = []"
proof -
  have "checkBlacklist (readingsFrom 5000) 5000 desktopChrome listedChrome =
      (deny ''blacklisted'', listedChrome)"
    by code_simp
  then show ?thesis
    by (simp add: deny_def failureCount_def failureRecord_def listedChrome_def
        blacklistSystem_def)
qed

section \<open>Static IP denylist: ranges\<close>

text \<open>
  The mask keeps the bits above the shift: two words agree under it exactly when they
  agree after the low bits are dropped.
\<close>

lemma and_mask_eq:
  fixes x y :: "32 word"
  shows "(x AND push_bit n (- 1) = y AND push_bit n (- 1)) \<longleftrightarrow> (drop_bit n x = drop_bit n y)"
proof
  assume h: "x AND push_bit n (- 1) = y AND push_bit n (- 1)"
  show "drop_bit n x = drop_bit n y"
  proof (rule bit_word_eqI)
    fix i assume "i < LENGTH(32)"
    have "bit (x AND push_bit n (- 1)) (n + i) = bit (y AND push_bit n (- 1)) (n + i)"
      using h by simp
    then have "n + i < 32 \<Longrightarrow> bit x (n + i) = bit y (n + i)"
      by (simp add: bit_simps)
    moreover have "\<not> n + i < 32 \<Longrightarrow> bit x (n + i) = bit y (n + i)"
      by (auto dest: bit_imp_le_length)
    ultimately show "bit (drop_bit n x) i = bit (drop_bit n y) i"
      by (auto simp: bit_drop_bit_eq)
  qed
next
  assume h: "drop_bit n x = drop_bit n y"
  show "x AND push_bit n (- 1) = y AND push_bit n (- 1)"
  proof (rule bit_word_eqI)
    fix i assume "i < LENGTH(32)"
    show "bit (x AND push_bit n (- 1)) i = bit (y AND push_bit n (- 1)) i"
    proof (cases "n \<le> i")
      case True
      have "bit (drop_bit n x) (i - n) = bit (drop_bit n y) (i - n)" using h by simp
      then have "bit x i = bit y i" using True by (simp add: bit_drop_bit_eq)
      then show ?thesis by (simp add: bit_and_iff)
    next
      case False
      then show ?thesis by (simp add: bit_simps)
    qed
  qed
qed


lemma toInt32_sint: "toInt32 (Some (sint (w :: 32 word))) = w"
  by (simp add: toInt32_def)

lemma toInt32_uint: "toInt32 (Some (uint (w :: 32 word))) = w"
  by (simp add: toInt32_def)

lemma sint_inj: "(sint (a :: 32 word) = sint b) = (a = b)"
  by (metis toInt32_sint)

lemma shift_count:
  assumes "0 \<le> k" "k < 32"
  shows "unat (toInt32 (Some k)) mod 32 = nat k"
proof -
  have "unat (word_of_int k :: 32 word) = nat k"
    using assms by (simp add: unat_eq_nat_uint uint_word_of_int)
  then show ?thesis using assms by (simp add: toInt32_def)
qed

lemma isIPInRange_mask:
  assumes "split CHR ''/'' cidr = rangeIP # plen # rest"
    and "parseInt (Some plen) = Some p"
    and "0 < p" and "p \<le> 32"
  shows "isIPInRange ip cidr \<longleftrightarrow>
           drop_bit (nat (32 - p)) (toInt32 (ipToInt ip)) =
           drop_bit (nat (32 - p)) (toInt32 (ipToInt rangeIP))"
proof -
  have c: "unat (toInt32 (Some (32 - p))) mod 32 = nat (32 - p)"
    using assms(3,4) by (intro shift_count) simp_all
  have "toInt32 (Some 4294967295) = - 1"
    by (simp add: toInt32_def)
  then have m: "shiftLeft (Some 4294967295) (Some (32 - p)) =
      sint (push_bit (nat (32 - p)) (- 1 :: 32 word))"
    unfolding shiftLeft_def c by simp
  have pl: "at_index (rangeIP # plen # rest) (Suc 0) = Some plen"
    by (simp add: at_index_def)
  have "isIPInRange ip cidr \<longleftrightarrow>
      bitAnd (ipToInt ip)
        (Some (uint (toInt32 (Some (shiftLeft (Some 4294967295) (Some (32 - p))))))) =
      bitAnd (ipToInt rangeIP)
        (Some (uint (toInt32 (Some (shiftLeft (Some 4294967295) (Some (32 - p)))))))"
    unfolding isIPInRange_def assms(1) by (simp add: pl assms(2) Let_def)
  also have "\<dots> \<longleftrightarrow>
      toInt32 (ipToInt ip) AND push_bit (nat (32 - p)) (- 1) =
      toInt32 (ipToInt rangeIP) AND push_bit (nat (32 - p)) (- 1)"
    unfolding m toInt32_sint toInt32_uint bitAnd_def sint_inj ..
  also have "\<dots> \<longleftrightarrow>
      drop_bit (nat (32 - p)) (toInt32 (ipToInt ip)) =
      drop_bit (nat (32 - p)) (toInt32 (ipToInt rangeIP))"
    by (rule and_mask_eq)
  finally show ?thesis .
qed

lemma isIPInRange_zero_prefix:
  assumes "split CHR ''/'' cidr = rangeIP # plen # rest"
    and "parseInt (Some plen) = Some 0"
  shows "isIPInRange ip cidr \<longleftrightarrow> toInt32 (ipToInt ip) = toInt32 (ipToInt rangeIP)"
proof -
  have m: "shiftLeft (Some 4294967295) (Some 32) = sint (- 1 :: 32 word)"
    by (simp add: shiftLeft_def toInt32_def)
  have pl: "at_index (rangeIP # plen # rest) (Suc 0) = Some plen"
    by (simp add: at_index_def)
  have "isIPInRange ip cidr \<longleftrightarrow>
      bitAnd (ipToInt ip) (Some (uint (toInt32 (Some (shiftLeft (Some 4294967295) (Some 32)))))) =
      bitAnd (ipToInt rangeIP) (Some (uint (toInt32 (Some (shiftLeft (Some 4294967295) (Some 32))))))"
    unfolding isIPInRange_def assms(1) by (simp add: pl assms(2) Let_def)
  also have "\<dots> \<longleftrightarrow> toInt32 (ipToInt ip) AND (- 1) = toInt32 (ipToInt rangeIP) AND (- 1)"
    unfolding m toInt32_sint toInt32_uint bitAnd_def sint_inj ..
  finally show ?thesis by simp
qed

text \<open>
  The addresses of the specification's example, under the lists of the source.
\<close>

lemma isIPBlocked_examples:
  "isIPBlocked blacklistSystem ''104.164.173.50'' \<and>
   \<not> isIPBlocked blacklistSystem ''8.8.8.8'' \<and>
   isIPBlocked blacklistSystem ''154.28.229.126''"
  by code_simp

text \<open>
  C7. An address is blocked when it is in the static list or agrees with the base
  address of a configured range on the top prefix-length bits. The code does so for
  the prefix lengths 1 to 32 (\<open>isIPInRange_mask\<close>) and on the example addresses
  (\<open>isIPBlocked_examples\<close>). For the prefix length 0 the shift count is 32, which
  JavaScript takes modulo 32: the mask is \<^verbatim>\<open>0xFFFFFFFF\<close>, the range \<^verbatim>\<open>0.0.0.0/0\<close>
  holds only its base address, and 8.8.8.8, which agrees with the base on the top 0
  bits, is not blocked.
\<close>

theorem isIPBlocked_prefix_zero:
  "\<not> isIPInRange ''8.8.8.8'' ''0.0.0.0/0'' \<and>
   \<not> isIPBlocked openRange ''8.8.8.8'' \<and>
   isIPInRange ''0.0.0.0'' ''0.0.0.0/0'' \<and>
   uint (toInt32 (Some (shiftLeft (Some 4294967295)
           (map_option (\<lambda>p. 32 - p) (parseInt (Some ''0'')))))) = 4294967295"
  by code_simp

theorem isIPBlocked_prefix_zero_witness:
  "\<not> isIPBlocked openRange ''8.8.8.8''"
  using isIPBlocked_prefix_zero by simp

end
